theory Spec2Isabelle
  imports Main "HOL-Library.Monad_Syntax" "HOL-Library.Signed_Division" "HOL-Library.Sublist"
    "HOL-Library.Multiset"
begin

section \<open>Go values and the run-time panic\<close>

text \<open>
  A value of Go's type \<open>any\<close> as \<open>encoding/json\<close> stores one when it decodes into an
  interface: \<open>nil\<close>, \<open>bool\<close>, \<open>float64\<close>, \<open>string\<close>, \<open>[]any\<close> and
  \<open>map[string]any\<close>. The type \<open>'f\<close> stands for \<open>float64\<close>; the only operation the
  program applies to it is the conversion \<open>int(f)\<close>, a parameter of the model. A map is
  an association list read with \<open>map_of\<close>.
\<close>

datatype 'f any =
    ANil
  | ABool bool
  | AFloat64 'f
  | AString string
  | ASlice "'f any list"
  | AMap "(string \<times> 'f any) list"

type_synonym 'f gomap = "(string \<times> 'f any) list"

text \<open>
  A failed type assertion \<open>x.(T)\<close> panics. Nothing in the repository recovers, so a panic
  ends the process: a run that panics has no result, \<open>Panic\<close>; one that returns has
  \<open>Done r\<close>.
\<close>

type_synonym 'a exec = "'a option"

abbreviation Panic :: "'a exec" where
  "Panic \<equiv> None"

abbreviation Done :: "'a \<Rightarrow> 'a exec" where
  "Done \<equiv> Some"

text \<open>\<open>m[k]\<close>: a missing key reads as the zero value of \<open>any\<close>, which is \<open>nil\<close>.\<close>

definition index :: "'f gomap \<Rightarrow> string \<Rightarrow> 'f any" where
  "index m k = (case map_of m k of None \<Rightarrow> ANil | Some v \<Rightarrow> v)"

text \<open>The type assertions \<open>x.(map[string]any)\<close>, \<open>x.(float64)\<close> and \<open>x.(string)\<close>.\<close>

fun assert_map :: "'f any \<Rightarrow> 'f gomap exec" where
  "assert_map (AMap m) = Done m"
| "assert_map _ = Panic"

fun assert_float64 :: "'f any \<Rightarrow> 'f exec" where
  "assert_float64 (AFloat64 f) = Done f"
| "assert_float64 _ = Panic"

fun assert_string :: "'f any \<Rightarrow> string exec" where
  "assert_string (AString s) = Done s"
| "assert_string _ = Panic"

section \<open>Time\<close>

text \<open>
  A \<open>time.Time\<close>: the instant, in nanoseconds since the Unix epoch, and the offset of its
  zone in seconds east of UTC. \<open>Before\<close> and \<open>After\<close> compare instants, \<open>Zone\<close> gives
  the offset, \<open>UTC\<close> keeps the instant and sets the zone to UTC, and \<open>Sub\<close> is the
  difference of the instants as a \<open>Duration\<close> (an \<open>int64\<close> of nanoseconds), which
  saturates at the largest and smallest duration.
\<close>

record Time =
  instant :: int
  zoneOffset :: int

definition zero_Time :: Time where
  "zero_Time = \<lparr>instant = - 62135596800000000000, zoneOffset = 0\<rparr>"

definition Before :: "Time \<Rightarrow> Time \<Rightarrow> bool" where
  "Before t u = (instant t < instant u)"

definition After :: "Time \<Rightarrow> Time \<Rightarrow> bool" where
  "After t u = (instant t > instant u)"

definition Zone :: "Time \<Rightarrow> int" where
  "Zone t = zoneOffset t"

definition UTC :: "Time \<Rightarrow> Time" where
  "UTC t = t\<lparr>zoneOffset := 0\<rparr>"

definition maxDuration :: int where
  "maxDuration = 2 ^ 63 - 1"

definition minDuration :: int where
  "minDuration = - (2 ^ 63)"

definition Sub :: "Time \<Rightarrow> Time \<Rightarrow> int" where
  "Sub t u =
     (let d = instant t - instant u
      in if d > maxDuration then maxDuration
         else if d < minDuration then minDuration
         else d)"

definition ANSIC :: string where
  "ANSIC = ''Mon Jan _2 15:04:05 2006''"

definition timeLayout :: string where
  "timeLayout = ''2006-01-02T15:04:05.999-07:00''"

section \<open>Printing and errors\<close>

text \<open>
  Standard output is the list of the \<open>fmt.Printf\<close> calls made, each with its format string
  and its arguments; an error built by \<open>fmt.Errorf\<close> is kept the same way. \<open>LibErr\<close> is
  an error returned by a library, by its message. A \<open>[]byte\<close> argument may be \<open>nil\<close>.
\<close>

datatype farg =
    FInt int
  | FStr string
  | FBytes "string option"
  | FDuration int
  | FErr error
and error =
    LibErr string
  | Errorf string "farg list"

datatype printed = Printf string "farg list"

definition LF :: string where
  "LF = [CHR 0x0A]"

section \<open>The records of the program\<close>

text \<open>\<open>logJSONT\<close>, the struct a line is decoded into.\<close>

record 'f logJSONT =
  T_Date :: string
  S :: string
  C :: string
  CTX :: string
  ID :: int
  MSG :: string
  Attr :: "'f any"
  Tags :: "string list"
  Truncated :: "'f any"
  Size :: int

text \<open>\<open>logT\<close>, the decoded line.\<close>

record logT =
  timeStamp :: Time

definition skippingLines :: string where
  "skippingLines = ''HEADER INCLUDED, NOW SKIPPING''"

text \<open>
  \<open>startupInfoT\<close> of \<open>info/info.go\<close>; a \<open>nil\<close> map or byte slice is \<open>None\<close>. The
  second file of package \<open>info\<close> (the extended variant) declares the same struct with
  three more fields, here the extension \<open>startupInfoT_x\<close>; everything of that file
  carries the suffix \<open>_x\<close>.
\<close>

record 'f startupInfoT =
  isStartup :: bool
  complete :: bool
  timeStamp :: Time
  processID :: int
  port :: int
  dbPath :: string
  hostName :: string
  version :: string
  distro :: string
  os :: string
  osVersion :: string
  configFile :: string
  options :: "'f gomap option"
  configYAML :: "string option"

record 'f startupInfoT_x = "'f startupInfoT" +
  memberState :: string
  replsetConfig :: "'f gomap option"
  replsetConfigYAML :: "string option"

text \<open>The zero values that \<open>var startupInfo startupInfoT\<close> declares.\<close>

definition zero_startupInfoT :: "'f startupInfoT" where
  "zero_startupInfoT =
     \<lparr>isStartup = False, complete = False, timeStamp = zero_Time, processID = 0, port = 0,
      dbPath = [], hostName = [], version = [], distro = [], os = [], osVersion = [],
      configFile = [], options = None, configYAML = None\<rparr>"

definition zero_startupInfoT_x :: "'f startupInfoT_x" where
  "zero_startupInfoT_x =
     \<lparr>isStartup = False, complete = False, timeStamp = zero_Time, processID = 0, port = 0,
      dbPath = [], hostName = [], version = [], distro = [], os = [], osVersion = [],
      configFile = [], options = None, configYAML = None,
      memberState = [], replsetConfig = None, replsetConfigYAML = None\<rparr>"

section \<open>The libraries the program calls\<close>

text \<open>
  The functions of the Go standard library and of \<open>yaml.v3\<close> that the program calls are
  parameters of the model, with the shape of their results:
  \<^item> \<open>json.Unmarshal(line, &lineObj)\<close> returns an error or fills the struct;
  \<^item> \<open>time.Parse(layout, value)\<close> returns an error or a time;
  \<^item> \<open>t.Format(layout)\<close> returns a string;
  \<^item> \<open>yaml.Marshal(config)\<close> returns bytes and an error, of which the program uses both;
  \<^item> \<open>strconv.Atoi(s)\<close> returns an integer and an error, of which the program uses the
    integer alone;
  \<^item> the conversion \<open>int(f)\<close> of a \<open>float64\<close>.
\<close>

record 'f extern =
  json_Unmarshal :: "string \<Rightarrow> string + 'f logJSONT"
  time_Parse :: "string \<Rightarrow> string \<Rightarrow> string + Time"
  time_Format :: "Time \<Rightarrow> string \<Rightarrow> string"
  yaml_Marshal :: "'f gomap \<Rightarrow> string option \<times> string option"
  strconv_Atoi :: "string \<Rightarrow> int \<times> string option"
  float64_to_int :: "'f \<Rightarrow> int"

definition getConfig :: "'f extern \<Rightarrow> 'f gomap \<Rightarrow> string option \<times> string option" where
  "getConfig ext config = yaml_Marshal ext config"

section \<open>The Reporter: \<open>printStartup\<close>\<close>

text \<open>
  \<open>printStartup\<close> of \<open>info/info.go\<close>: it returns at once when \<open>complete\<close> is not set;
  otherwise it prints three lines and clears \<open>complete\<close> and \<open>isStartup\<close>. The model
  returns the updated struct and what was printed.
\<close>

definition printStartup :: "'f extern \<Rightarrow> 'f startupInfoT \<Rightarrow> 'f startupInfoT \<times> printed list" where
  "printStartup ext info =
     (if \<not> complete info then (info, [])
      else
        (info\<lparr>complete := False, isStartup := False\<rparr>,
         [Printf (''Startup | host: %s | port: %d | dbPath: %s | pid: %d | when: %s UTC'' @ LF)
            [FStr (hostName info), FInt (port info), FStr (dbPath info), FInt (processID info),
             FStr (time_Format ext (UTC (timeStamp info)) ANSIC)],
          Printf (''Version: %s | Platform: %s | OS: %s | OS Version: %s'' @ LF)
            [FStr (version info), FStr (distro info), FStr (os info), FStr (osVersion info)],
          Printf (''%s'' @ LF) [FBytes (configYAML info)]]))"

text \<open>
  \<open>printStartup\<close> of the extended variant: the first line starts with \<open>Start up\<close> or
  \<open>Log rotation\<close>, and two more lines are printed when \<open>replsetConfig\<close> is not \<open>nil\<close>.
\<close>

definition printStartup_x ::
  "'f extern \<Rightarrow> 'f startupInfoT_x \<Rightarrow> 'f startupInfoT_x \<times> printed list" where
  "printStartup_x ext info =
     (if \<not> complete info then (info, [])
      else
        (let startMsg = (if isStartup info then ''Start up'' else ''Log rotation'')
         in (info\<lparr>complete := False, isStartup := False\<rparr>,
             [Printf (''%s | host: %s | port: %d | dbPath: %s | pid: %d | when: %s UTC'' @ LF)
                [FStr startMsg, FStr (hostName info), FInt (port info), FStr (dbPath info),
                 FInt (processID info), FStr (time_Format ext (UTC (timeStamp info)) ANSIC)],
              Printf (''Version: %s | Platform: %s | OS: %s | OS Version: %s'' @ LF)
                [FStr (version info), FStr (distro info), FStr (os info), FStr (osVersion info)],
              Printf (''%s'' @ LF) [FBytes (configYAML info)]] @
             (if replsetConfig info \<noteq> None
              then [Printf (''Member state: %s'' @ LF) [FStr (memberState info)],
                    Printf (''%s'' @ LF) [FBytes (replsetConfigYAML info)]]
              else []))))"

section \<open>The Accumulator and the Decoder: \<open>logLine\<close>\<close>

text \<open>
  The second half of \<open>logLine\<close> in \<open>info/info.go\<close>, from \<open>attr := lineObj.Attr\<close> to the
  end of the \<open>if\<close>: a record with an attribute bag and the component \<open>CONTROL\<close> has its
  bag asserted to be a map, and the \<open>switch\<close> on the message text stores the fields of
  the four messages it knows. Each field is read with an unchecked type assertion.
\<close>

definition accumulate ::
  "'f extern \<Rightarrow> 'f logJSONT \<Rightarrow> Time \<Rightarrow> 'f startupInfoT \<Rightarrow> 'f startupInfoT exec" where
  "accumulate ext lineObj timeStamp' startupInfo =
     (if Attr lineObj \<noteq> ANil \<and> C lineObj = ''CONTROL'' then
        do {
          attr \<leftarrow> assert_map (Attr lineObj);
          if MSG lineObj = ''MongoDB starting'' then
            do {
              pid \<leftarrow> assert_float64 (index attr ''pid'');
              port' \<leftarrow> assert_float64 (index attr ''port'');
              host \<leftarrow> assert_string (index attr ''host'');
              dbPath' \<leftarrow> assert_string (index attr ''dbPath'');
              Done (startupInfo\<lparr>isStartup := True, timeStamp := timeStamp',
                processID := float64_to_int ext pid, port := float64_to_int ext port',
                hostName := host, dbPath := dbPath'\<rparr>)
            }
          else if MSG lineObj = ''Build Info'' then
            do {
              biattrb \<leftarrow> assert_map (index attr ''buildInfo'');
              version' \<leftarrow> assert_string (index biattrb ''version'');
              biattrenv \<leftarrow> assert_map (index biattrb ''environment'');
              distmod \<leftarrow> assert_string (index biattrenv ''distmod'');
              Done (startupInfo\<lparr>version := version', distro := distmod\<rparr>)
            }
          else if MSG lineObj = ''Operating System'' then
            do {
              osattros \<leftarrow> assert_map (index attr ''os'');
              name \<leftarrow> assert_string (index osattros ''name'');
              osVersion' \<leftarrow> assert_string (index osattros ''version'');
              Done (startupInfo\<lparr>os := name, osVersion := osVersion'\<rparr>)
            }
          else if MSG lineObj = ''Options set by command line'' then
            do {
              opattropts \<leftarrow> assert_map (index attr ''options'');
              config \<leftarrow> assert_string (index opattropts ''config'');
              let (configYAML', err) = getConfig ext opattropts;
              Done (startupInfo\<lparr>configFile := config, options := Some opattropts,
                configYAML := (if err = None then configYAML' else None),
                complete := True\<rparr>)
            }
          else Done startupInfo
        }
      else Done startupInfo)"

text \<open>
  The same part of \<open>logLine\<close> in the extended variant: the component may also be
  \<open>REPL\<close>, and three more messages are known. \<open>Process Details\<close> reads \<open>pid\<close> as a
  string and keeps what \<open>strconv.Atoi\<close> returns for it, dropping the error. \<open>New replica
  set config in use\<close> prints a notice; when rendering fails it sets
  \<open>replsetConfigYAML\<close> to \<open>nil\<close>. The result is the struct and what was printed.
\<close>

definition accumulate_x ::
  "'f extern \<Rightarrow> 'f logJSONT \<Rightarrow> Time \<Rightarrow> 'f startupInfoT_x \<Rightarrow>
   ('f startupInfoT_x \<times> printed list) exec" where
  "accumulate_x ext lineObj timeStamp' startupInfo =
     (if Attr lineObj \<noteq> ANil \<and> (C lineObj = ''CONTROL'' \<or> C lineObj = ''REPL'') then
        do {
          attr \<leftarrow> assert_map (Attr lineObj);
          if MSG lineObj = ''MongoDB starting'' then
            do {
              pid \<leftarrow> assert_float64 (index attr ''pid'');
              port' \<leftarrow> assert_float64 (index attr ''port'');
              host \<leftarrow> assert_string (index attr ''host'');
              dbPath' \<leftarrow> assert_string (index attr ''dbPath'');
              Done (startupInfo\<lparr>isStartup := True, timeStamp := timeStamp',
                processID := float64_to_int ext pid, port := float64_to_int ext port',
                hostName := host, dbPath := dbPath'\<rparr>, [])
            }
          else if MSG lineObj = ''Process Details'' then
            do {
              pid \<leftarrow> assert_string (index attr ''pid'');
              port' \<leftarrow> assert_float64 (index attr ''port'');
              host \<leftarrow> assert_string (index attr ''host'');
              Done (startupInfo\<lparr>isStartup := False, timeStamp := timeStamp',
                processID := fst (strconv_Atoi ext pid), port := float64_to_int ext port',
                hostName := host\<rparr>, [])
            }
          else if MSG lineObj = ''Build Info'' then
            do {
              biattrb \<leftarrow> assert_map (index attr ''buildInfo'');
              version' \<leftarrow> assert_string (index biattrb ''version'');
              biattrenv \<leftarrow> assert_map (index biattrb ''environment'');
              distmod \<leftarrow> assert_string (index biattrenv ''distmod'');
              Done (startupInfo\<lparr>version := version', distro := distmod\<rparr>, [])
            }
          else if MSG lineObj = ''Operating System'' then
            do {
              osattros \<leftarrow> assert_map (index attr ''os'');
              name \<leftarrow> assert_string (index osattros ''name'');
              osVersion' \<leftarrow> assert_string (index osattros ''version'');
              Done (startupInfo\<lparr>os := name, osVersion := osVersion'\<rparr>, [])
            }
          else if MSG lineObj = ''Node is a member of a replica set'' then
            do {
              memberState' \<leftarrow> assert_string (index attr ''memberState'');
              config \<leftarrow> assert_map (index attr ''config'');
              let (rsconfigYAML, err) = getConfig ext config;
              Done (startupInfo\<lparr>memberState := memberState', replsetConfig := Some config,
                replsetConfigYAML := (if err = None then rsconfigYAML else None)\<rparr>, [])
            }
          else if MSG lineObj = ''New replica set config in use'' then
            do {
              rsConfig \<leftarrow> assert_map (index attr ''config'');
              let (rsConfigYAML, err) = getConfig ext rsConfig;
              Done ((if err \<noteq> None then startupInfo\<lparr>replsetConfigYAML := None\<rparr>
                     else startupInfo),
                    [Printf (''New replica set config: %s'' @ LF @ ''%s'' @ LF)
                       [FStr (time_Format ext (UTC timeStamp') ANSIC), FBytes rsConfigYAML]])
            }
          else if MSG lineObj = ''Options set by command line'' then
            do {
              opattropts \<leftarrow> assert_map (index attr ''options'');
              config \<leftarrow> assert_string (index opattropts ''config'');
              let (configYAML', err) = getConfig ext opattropts;
              Done (startupInfo\<lparr>configFile := config, options := Some opattropts,
                configYAML := (if err = None then configYAML' else None),
                complete := True\<rparr>, [])
            }
          else Done (startupInfo, [])
        }
      else Done (startupInfo, []))"

text \<open>
  \<open>logLine\<close> of \<open>info/info.go\<close>. The Go function returns \<open>(*logT, error)\<close>, changes
  \<open>*startupInfo\<close> and may print; the model returns the pair, the struct after the call
  and what was printed. A line that does not decode returns a \<open>nil\<close> record: with no
  error after a warning when it starts with \<open>skippingLines\<close>, with an error otherwise. A
  timestamp that does not parse returns a \<open>nil\<close> record with an error, too.
\<close>

definition logLine ::
  "'f extern \<Rightarrow> string \<Rightarrow> 'f startupInfoT \<Rightarrow>
   ((logT option \<times> error option) \<times> 'f startupInfoT \<times> printed list) exec" where
  "logLine ext line startupInfo =
     (case json_Unmarshal ext line of
        Inl err \<Rightarrow>
          if prefix skippingLines line
          then Done ((None, None), startupInfo,
                 [Printf (''Warning: lines skipped in log file! %s'' @ LF) [FStr line]])
          else Done ((None, Some (Errorf ''error parsing log line for JSON: %v'' [FErr (LibErr err)])),
                 startupInfo, [])
      | Inr lineObj \<Rightarrow>
          (case time_Parse ext timeLayout (T_Date lineObj) of
             Inl err \<Rightarrow>
               Done ((None, Some (Errorf ''invalid timestamp: %v'' [FErr (LibErr err)])),
                 startupInfo, [])
           | Inr timeStamp' \<Rightarrow>
               do {
                 let logMsg = \<lparr>logT.timeStamp = timeStamp'\<rparr>;
                 startupInfo' \<leftarrow> accumulate ext lineObj timeStamp' startupInfo;
                 Done ((Some logMsg, None), startupInfo', [])
               }))"

definition logLine_x ::
  "'f extern \<Rightarrow> string \<Rightarrow> 'f startupInfoT_x \<Rightarrow>
   ((logT option \<times> error option) \<times> 'f startupInfoT_x \<times> printed list) exec" where
  "logLine_x ext line startupInfo =
     (case json_Unmarshal ext line of
        Inl err \<Rightarrow>
          if prefix skippingLines line
          then Done ((None, None), startupInfo,
                 [Printf (''Warning: lines skipped in log file! %s'' @ LF) [FStr line]])
          else Done ((None, Some (Errorf ''error parsing log line for JSON: %v'' [FErr (LibErr err)])),
                 startupInfo, [])
      | Inr lineObj \<Rightarrow>
          (case time_Parse ext timeLayout (T_Date lineObj) of
             Inl err \<Rightarrow>
               Done ((None, Some (Errorf ''invalid timestamp: %v'' [FErr (LibErr err)])),
                 startupInfo, [])
           | Inr timeStamp' \<Rightarrow>
               do {
                 let logMsg = \<lparr>logT.timeStamp = timeStamp'\<rparr>;
                 (startupInfo', out) \<leftarrow> accumulate_x ext lineObj timeStamp' startupInfo;
                 Done ((Some logMsg, None), startupInfo', out)
               }))"

section \<open>The pass over one file: \<open>List\<close>\<close>

text \<open>
  The file as \<open>List\<close> sees it: the error of \<open>os.Open\<close> if it fails, the lines the
  \<open>bufio.Scanner\<close> yields one by one, and the error \<open>perLine.Err()\<close> reports after the
  last of them, if any.
\<close>

record logFile =
  open_err :: "string option"
  scanned :: "string list"
  scan_err :: "string option"

text \<open>
  The \<open>for perLine.Scan()\<close> loop of \<open>List\<close>, over the lines left, with the local
  variables as arguments and \<open>out\<close> for what has been printed so far. It follows the
  order of the source: the call of \<open>logLine\<close>, the count, \<open>continue\<close> when the record is
  \<open>nil\<close>, only then the test of the error, the two bounds, and \<open>printStartup\<close> when
  \<open>complete\<close> is set. It ends with the error returned from inside the loop, if any, and
  the variables that the rest of \<open>List\<close> reads.
\<close>

fun List_loop ::
  "'f extern \<Rightarrow> string \<Rightarrow> string list \<Rightarrow> Time \<Rightarrow> Time \<Rightarrow> bool \<Rightarrow> 'f startupInfoT \<Rightarrow> int \<Rightarrow>
   printed list \<Rightarrow> (error option \<times> Time \<times> Time \<times> int \<times> printed list) exec" where
  "List_loop ext fileName [] earliest latest firstTime startupInfo lineCount out =
     Done (None, earliest, latest, lineCount, out)"
| "List_loop ext fileName (line # rest) earliest latest firstTime startupInfo lineCount out =
     (case logLine ext line startupInfo of
        Panic \<Rightarrow> Panic
      | Done ((logLine', err), startupInfo1, out1) \<Rightarrow>
          (case logLine' of
             None \<Rightarrow>
               List_loop ext fileName rest earliest latest firstTime startupInfo1 (lineCount + 1)
                 (out @ out1)
           | Some logMsg \<Rightarrow>
               (case err of
                  Some e \<Rightarrow>
                    Done (Some (Errorf (''error in line from log file '%s': %v'' @ LF @ ''Line is: %s'')
                                  [FStr fileName, FErr e, FStr line]),
                          earliest, latest, lineCount + 1, out @ out1)
                | None \<Rightarrow>
                    (let earliest' =
                           (if firstTime then logT.timeStamp logMsg
                            else if Before (logT.timeStamp logMsg) earliest
                                 then logT.timeStamp logMsg else earliest);
                         latest' =
                           (if firstTime then logT.timeStamp logMsg
                            else if After (logT.timeStamp logMsg) latest
                                 then logT.timeStamp logMsg else latest);
                         (startupInfo2, out2) =
                           (if complete startupInfo1 then printStartup ext startupInfo1
                            else (startupInfo1, []))
                     in List_loop ext fileName rest earliest' latest' False startupInfo2
                          (lineCount + 1) (out @ out1 @ out2)))))"

fun List_loop_x ::
  "'f extern \<Rightarrow> string \<Rightarrow> string list \<Rightarrow> Time \<Rightarrow> Time \<Rightarrow> bool \<Rightarrow> 'f startupInfoT_x \<Rightarrow> int \<Rightarrow>
   printed list \<Rightarrow> (error option \<times> Time \<times> Time \<times> int \<times> printed list) exec" where
  "List_loop_x ext fileName [] earliest latest firstTime startupInfo lineCount out =
     Done (None, earliest, latest, lineCount, out)"
| "List_loop_x ext fileName (line # rest) earliest latest firstTime startupInfo lineCount out =
     (case logLine_x ext line startupInfo of
        Panic \<Rightarrow> Panic
      | Done ((logLine', err), startupInfo1, out1) \<Rightarrow>
          (case logLine' of
             None \<Rightarrow>
               List_loop_x ext fileName rest earliest latest firstTime startupInfo1 (lineCount + 1)
                 (out @ out1)
           | Some logMsg \<Rightarrow>
               (case err of
                  Some e \<Rightarrow>
                    Done (Some (Errorf (''error in line from log file '%s': %v'' @ LF @ ''Line is: %s'')
                                  [FStr fileName, FErr e, FStr line]),
                          earliest, latest, lineCount + 1, out @ out1)
                | None \<Rightarrow>
                    (let earliest' =
                           (if firstTime then logT.timeStamp logMsg
                            else if Before (logT.timeStamp logMsg) earliest
                                 then logT.timeStamp logMsg else earliest);
                         latest' =
                           (if firstTime then logT.timeStamp logMsg
                            else if After (logT.timeStamp logMsg) latest
                                 then logT.timeStamp logMsg else latest);
                         (startupInfo2, out2) =
                           (if complete startupInfo1 then printStartup_x ext startupInfo1
                            else (startupInfo1, []))
                     in List_loop_x ext fileName rest earliest' latest' False startupInfo2
                          (lineCount + 1) (out @ out1 @ out2)))))"

text \<open>
  The three lines \<open>List\<close> prints after the loop: the number of lines, the zone offset
  \<open>tzo\<close> of \<open>earliest\<close> as \<open>tzo/3600\<close> and \<open>tzo%60\<close> (Go's \<open>/\<close> and \<open>%\<close> truncate
  towards zero: \<open>sdiv\<close> and \<open>smod\<close>), and the two bounds in UTC with their distance.
\<close>

definition summary :: "'f extern \<Rightarrow> string \<Rightarrow> Time \<Rightarrow> Time \<Rightarrow> int \<Rightarrow> printed list" where
  "summary ext fileName earliest latest lineCount =
     (let tzo = Zone earliest
      in [Printf (''%d lines in log file %s'' @ LF) [FInt lineCount, FStr fileName],
          Printf (''Log file timezone is UTC %d hours %d minutes)'' @ LF)
            [FInt (tzo sdiv 3600), FInt (tzo smod 60)],
          Printf (''UTC time range in log file: %s -to- %s (%s)'' @ LF)
            [FStr (time_Format ext (UTC earliest) ANSIC),
             FStr (time_Format ext (UTC latest) ANSIC),
             FDuration (Sub latest earliest)]])"

text \<open>
  \<open>List\<close>: the error it returns (\<open>nil\<close> is \<open>None\<close>) and what it has printed. The two
  variants have the same text and differ in the \<open>logLine\<close> and \<open>printStartup\<close> they call.
\<close>

definition List :: "'f extern \<Rightarrow> string \<Rightarrow> logFile \<Rightarrow> (error option \<times> printed list) exec" where
  "List ext fileName file =
     (case open_err file of
        Some err \<Rightarrow>
          Done (Some (Errorf ''error opening log file '%s': %v'' [FStr fileName, FErr (LibErr err)]),
                [])
      | None \<Rightarrow>
          do {
            (ret, earliest, latest, lineCount, out) \<leftarrow>
              List_loop ext fileName (scanned file) zero_Time zero_Time True zero_startupInfoT 0 [];
            (case ret of
               Some e \<Rightarrow> Done (Some e, out)
             | None \<Rightarrow>
                 (case scan_err file of
                    Some err \<Rightarrow>
                      Done (Some (Errorf ''error reading log file '%s': %v''
                                    [FStr fileName, FErr (LibErr err)]), out)
                  | None \<Rightarrow> Done (None, out @ summary ext fileName earliest latest lineCount)))
          })"

definition List_x :: "'f extern \<Rightarrow> string \<Rightarrow> logFile \<Rightarrow> (error option \<times> printed list) exec" where
  "List_x ext fileName file =
     (case open_err file of
        Some err \<Rightarrow>
          Done (Some (Errorf ''error opening log file '%s': %v'' [FStr fileName, FErr (LibErr err)]),
                [])
      | None \<Rightarrow>
          do {
            (ret, earliest, latest, lineCount, out) \<leftarrow>
              List_loop_x ext fileName (scanned file) zero_Time zero_Time True zero_startupInfoT_x 0 [];
            (case ret of
               Some e \<Rightarrow> Done (Some e, out)
             | None \<Rightarrow>
                 (case scan_err file of
                    Some err \<Rightarrow>
                      Done (Some (Errorf ''error reading log file '%s': %v''
                                    [FStr fileName, FErr (LibErr err)]), out)
                  | None \<Rightarrow> Done (None, out @ summary ext fileName earliest latest lineCount)))
          })"

section \<open>Notions of the specification\<close>

text \<open>
  A sequence of decoded records fed to the accumulator: the second half of \<open>logLine\<close>
  applied to one record after the other, on the struct the one before left. A panic
  ends the run.
\<close>

fun feed ::
  "'f extern \<Rightarrow> ('f logJSONT \<times> Time) list \<Rightarrow> 'f startupInfoT \<Rightarrow> 'f startupInfoT exec" where
  "feed ext [] info = Done info"
| "feed ext (r # rs) info =
     (case accumulate ext (fst r) (snd r) info of
        Panic \<Rightarrow> Panic
      | Done info' \<Rightarrow> feed ext rs info')"

fun feed_x ::
  "'f extern \<Rightarrow> ('f logJSONT \<times> Time) list \<Rightarrow> 'f startupInfoT_x \<Rightarrow> 'f startupInfoT_x exec" where
  "feed_x ext [] info = Done info"
| "feed_x ext (r # rs) info =
     (case accumulate_x ext (fst r) (snd r) info of
        Panic \<Rightarrow> Panic
      | Done res \<Rightarrow> feed_x ext rs (fst res))"

text \<open>
  The record that ends a startup sequence, as the specification describes it: the message
  text is \<open>Options set by command line\<close>, the attribute bag is present and the component
  is in the allow-list of the variant.
\<close>

definition options_record :: "'f logJSONT \<Rightarrow> bool" where
  "options_record r =
     (MSG r = ''Options set by command line'' \<and> Attr r \<noteq> ANil \<and> C r = ''CONTROL'')"

definition options_record_x :: "'f logJSONT \<Rightarrow> bool" where
  "options_record_x r =
     (MSG r = ''Options set by command line'' \<and> Attr r \<noteq> ANil \<and>
      (C r = ''CONTROL'' \<or> C r = ''REPL''))"

text \<open>
  The required fields of each recognized message, as the specification lists them (4.2),
  with the Go type each must hold: \<open>required_ok msg attr\<close> says that the attribute bag
  \<open>attr\<close> of a record with message text \<open>msg\<close> has every required key with a value of
  the expected type.
\<close>

fun is_float64 :: "'f any \<Rightarrow> bool" where
  "is_float64 (AFloat64 f) = True"
| "is_float64 _ = False"

fun is_string :: "'f any \<Rightarrow> bool" where
  "is_string (AString s) = True"
| "is_string _ = False"

fun is_map :: "'f any \<Rightarrow> bool" where
  "is_map (AMap m) = True"
| "is_map _ = False"

fun key_ok :: "('f any \<Rightarrow> bool) \<Rightarrow> 'f any \<Rightarrow> string \<Rightarrow> bool" where
  "key_ok p (AMap m) k = p (index m k)"
| "key_ok p _ k = False"

definition recognized :: "string \<Rightarrow> bool" where
  "recognized msg =
     (msg = ''MongoDB starting'' \<or> msg = ''Build Info'' \<or> msg = ''Operating System'' \<or>
      msg = ''Options set by command line'')"

definition recognized_x :: "string \<Rightarrow> bool" where
  "recognized_x msg =
     (recognized msg \<or> msg = ''Process Details'' \<or>
      msg = ''Node is a member of a replica set'' \<or> msg = ''New replica set config in use'')"

definition required_ok :: "string \<Rightarrow> 'f any \<Rightarrow> bool" where
  "required_ok msg attr =
     (if msg = ''MongoDB starting'' then
        key_ok is_float64 attr ''pid'' \<and> key_ok is_float64 attr ''port'' \<and>
        key_ok is_string attr ''host'' \<and> key_ok is_string attr ''dbPath''
      else if msg = ''Build Info'' then
        key_ok (\<lambda>b. key_ok is_string b ''version'' \<and>
                    key_ok (\<lambda>e. key_ok is_string e ''distmod'') b ''environment'')
          attr ''buildInfo''
      else if msg = ''Operating System'' then
        key_ok (\<lambda>v. key_ok is_string v ''name'' \<and> key_ok is_string v ''version'') attr ''os''
      else if msg = ''Options set by command line'' then
        key_ok (\<lambda>v. key_ok is_string v ''config'') attr ''options''
      else True)"

definition required_ok_x :: "string \<Rightarrow> 'f any \<Rightarrow> bool" where
  "required_ok_x msg attr =
     (if msg = ''Process Details'' then
        key_ok is_string attr ''pid'' \<and> key_ok is_float64 attr ''port'' \<and>
        key_ok is_string attr ''host''
      else if msg = ''Node is a member of a replica set'' then
        key_ok is_string attr ''memberState'' \<and> key_ok is_map attr ''config''
      else if msg = ''New replica set config in use'' then
        key_ok is_map attr ''config''
      else required_ok msg attr)"

text \<open>
  The timestamps of the decodable records of a file, in the order of the lines: a line
  is decodable when it decodes into the struct and its \<open>t.$date\<close> parses.
\<close>

definition decode :: "'f extern \<Rightarrow> string \<Rightarrow> ('f logJSONT \<times> Time) option" where
  "decode ext line =
     (case json_Unmarshal ext line of
        Inl err \<Rightarrow> None
      | Inr lineObj \<Rightarrow>
          (case time_Parse ext timeLayout (T_Date lineObj) of
             Inl err \<Rightarrow> None
           | Inr t \<Rightarrow> Some (lineObj, t)))"

definition timestamps :: "'f extern \<Rightarrow> string list \<Rightarrow> Time list" where
  "timestamps ext lines = List.map_filter (\<lambda>line. map_option snd (decode ext line)) lines"

text \<open>
  The last line of the summary for the range from the least to the greatest instant of
  the timestamps \<open>ts\<close>, whatever their order.
\<close>

definition range_line :: "'f extern \<Rightarrow> Time list \<Rightarrow> printed" where
  "range_line ext ts =
     (let tmin = \<lparr>instant = Min (set (map instant ts)), zoneOffset = 0\<rparr>;
          tmax = \<lparr>instant = Max (set (map instant ts)), zoneOffset = 0\<rparr>
      in Printf (''UTC time range in log file: %s -to- %s (%s)'' @ LF)
           [FStr (time_Format ext tmin ANSIC), FStr (time_Format ext tmax ANSIC),
            FDuration (Sub tmax tmin)])"

section \<open>Sample lines and a sample environment\<close>

text \<open>
  Log lines of the server, the structs \<open>json.Unmarshal\<close> decodes them into (its field
  matching ignores case; a JSON number becomes a \<open>float64\<close>, written here by its integer
  value), and the times their timestamps parse to.
\<close>

definition sample_record ::
  "string \<Rightarrow> string \<Rightarrow> int \<Rightarrow> string \<Rightarrow> string \<Rightarrow> int any \<Rightarrow> int logJSONT" where
  "sample_record date cmp ident ctx msg attr =
     \<lparr>T_Date = date, S = ''I'', C = cmp, CTX = ctx, ID = ident, MSG = msg, Attr = attr,
      Tags = [], Truncated = ANil, Size = 0\<rparr>"

definition time_1 :: Time where
  "time_1 = \<lparr>instant = 1658345391886000000, zoneOffset = - 25200\<rparr>"

definition time_2 :: Time where
  "time_2 = \<lparr>instant = 1658343600000000000, zoneOffset = - 25200\<rparr>"

definition time_3 :: Time where
  "time_3 = \<lparr>instant = 1658345467250000000, zoneOffset = - 25200\<rparr>"

definition time_4 :: Time where
  "time_4 = \<lparr>instant = 1658345400000000000, zoneOffset = 19800\<rparr>"

definition line_starting :: string where
  \<open>line_starting = ''{"t":{"$date":"2022-07-20T12:29:51.886-07:00"},"s":"I","c":"CONTROL","id":4615611,"ctx":"initandlisten","msg":"MongoDB starting","attr":{"pid":100,"port":27017,"dbPath":"/data/db","host":"h1"}}''\<close>

definition obj_starting :: "int logJSONT" where
  "obj_starting =
     sample_record ''2022-07-20T12:29:51.886-07:00'' ''CONTROL'' 4615611 ''initandlisten''
       ''MongoDB starting''
       (AMap [(''pid'', AFloat64 100), (''port'', AFloat64 27017),
              (''dbPath'', AString ''/data/db''), (''host'', AString ''h1'')])"

definition line_nopid :: string where
  \<open>line_nopid = ''{"t":{"$date":"2022-07-20T12:29:51.886-07:00"},"s":"I","c":"CONTROL","id":4615611,"ctx":"initandlisten","msg":"MongoDB starting","attr":{"port":27017,"dbPath":"/data/db","host":"h1"}}''\<close>

definition obj_nopid :: "int logJSONT" where
  "obj_nopid =
     sample_record ''2022-07-20T12:29:51.886-07:00'' ''CONTROL'' 4615611 ''initandlisten''
       ''MongoDB starting''
       (AMap [(''port'', AFloat64 27017), (''dbPath'', AString ''/data/db''),
              (''host'', AString ''h1'')])"

definition line_options :: string where
  \<open>line_options = ''{"t":{"$date":"2022-07-20T12:31:07.250-07:00"},"s":"I","c":"CONTROL","id":21951,"ctx":"initandlisten","msg":"Options set by command line","attr":{"options":{"config":"/etc/mongod.conf","net":{"port":27017}}}}''\<close>

definition sample_options :: "int gomap" where
  "sample_options =
     [(''config'', AString ''/etc/mongod.conf''), (''net'', AMap [(''port'', AFloat64 27017)])]"

definition obj_options :: "int logJSONT" where
  "obj_options =
     sample_record ''2022-07-20T12:31:07.250-07:00'' ''CONTROL'' 21951 ''initandlisten''
       ''Options set by command line'' (AMap [(''options'', AMap sample_options)])"

definition line_newconfig :: string where
  \<open>line_newconfig = ''{"t":{"$date":"2022-07-20T12:31:07.250-07:00"},"s":"I","c":"REPL","id":21392,"ctx":"ReplCoord-0","msg":"New replica set config in use","attr":{"config":{"_id":"rs0"}}}''\<close>

definition sample_rsconfig :: "int gomap" where
  "sample_rsconfig = [(''_id'', AString ''rs0'')]"

definition obj_newconfig :: "int logJSONT" where
  "obj_newconfig =
     sample_record ''2022-07-20T12:31:07.250-07:00'' ''REPL'' 21392 ''ReplCoord-0''
       ''New replica set config in use'' (AMap [(''config'', AMap sample_rsconfig)])"

definition line_details :: string where
  \<open>line_details = ''{"t":{"$date":"2022-07-20T12:29:51.886-07:00"},"s":"I","c":"CONTROL","id":20721,"ctx":"conn40413","msg":"Process Details","attr":{"pid":"n/a","port":27017,"architecture":"64-bit","host":"pd3lon-mdb-07"}}''\<close>

definition obj_details :: "int logJSONT" where
  "obj_details =
     sample_record ''2022-07-20T12:29:51.886-07:00'' ''CONTROL'' 20721 ''conn40413''
       ''Process Details''
       (AMap [(''pid'', AString ''n/a''), (''port'', AFloat64 27017),
              (''architecture'', AString ''64-bit''), (''host'', AString ''pd3lon-mdb-07'')])"

definition line_early :: string where
  \<open>line_early = ''{"t":{"$date":"2022-07-20T12:00:00.000-07:00"},"s":"I","c":"NETWORK","id":22943,"ctx":"listener","msg":"Connection accepted"}''\<close>

definition obj_early :: "int logJSONT" where
  "obj_early =
     sample_record ''2022-07-20T12:00:00.000-07:00'' ''NETWORK'' 22943 ''listener''
       ''Connection accepted'' ANil"

definition line_india :: string where
  \<open>line_india = ''{"t":{"$date":"2022-07-21T01:00:00.000+05:30"},"s":"I","c":"NETWORK","id":22943,"ctx":"listener","msg":"Connection accepted"}''\<close>

definition obj_india :: "int logJSONT" where
  "obj_india =
     sample_record ''2022-07-21T01:00:00.000+05:30'' ''NETWORK'' 22943 ''listener''
       ''Connection accepted'' ANil"

definition line_noconfig :: string where
  \<open>line_noconfig = ''{"t":{"$date":"2022-07-20T12:31:07.250-07:00"},"s":"I","c":"CONTROL","id":21951,"ctx":"initandlisten","msg":"Options set by command line","attr":{"options":{"net":{"port":27017}}}}''\<close>

definition obj_noconfig :: "int logJSONT" where
  "obj_noconfig =
     sample_record ''2022-07-20T12:31:07.250-07:00'' ''CONTROL'' 21951 ''initandlisten''
       ''Options set by command line''
       (AMap [(''options'', AMap [(''net'', AMap [(''port'', AFloat64 27017)])])])"

definition line_bareconfig :: string where
  \<open>line_bareconfig = ''{"t":{"$date":"2022-07-20T12:31:07.250-07:00"},"s":"I","c":"REPL","id":21392,"ctx":"ReplCoord-0","msg":"New replica set config in use","attr":{"configVersion":2}}''\<close>

definition obj_bareconfig :: "int logJSONT" where
  "obj_bareconfig =
     sample_record ''2022-07-20T12:31:07.250-07:00'' ''REPL'' 21392 ''ReplCoord-0''
       ''New replica set config in use'' (AMap [(''configVersion'', AFloat64 2)])"

definition line_bigpid :: string where
  \<open>line_bigpid = ''{"t":{"$date":"2022-07-20T12:29:51.886-07:00"},"s":"I","c":"CONTROL","id":20721,"ctx":"conn40413","msg":"Process Details","attr":{"pid":"99999999999999999999","port":27017,"architecture":"64-bit","host":"pd3lon-mdb-07"}}''\<close>

definition obj_bigpid :: "int logJSONT" where
  "obj_bigpid =
     sample_record ''2022-07-20T12:29:51.886-07:00'' ''CONTROL'' 20721 ''conn40413''
       ''Process Details''
       (AMap [(''pid'', AString ''99999999999999999999''), (''port'', AFloat64 27017),
              (''architecture'', AString ''64-bit''), (''host'', AString ''pd3lon-mdb-07'')])"

definition line_garbage :: string where
  "line_garbage = ''mongod: log line lost''"

text \<open>
  A sample environment, which stands for the libraries on the sample lines: the decoder
  knows the lines above and fails on every other text, as \<open>json.Unmarshal\<close> does on
  \<open>line_garbage\<close>; the timestamps above parse to the times above; \<open>Format\<close> knows their
  instants; \<open>yaml.Marshal\<close> knows the two sample maps. \<open>Atoi\<close> knows two numerals in
  range; for the twenty nines, a numeral beyond the range of \<open>int\<close>, it returns the
  largest \<open>int\<close> with its range error, as \<open>strconv.Atoi\<close> does; otherwise it returns
  \<open>0\<close> with its syntax error, as \<open>strconv.Atoi\<close> does on \<open>n/a\<close>.
\<close>

definition sample_Unmarshal :: "string \<Rightarrow> string + int logJSONT" where
  "sample_Unmarshal line =
     (case map_of
        [(line_starting, obj_starting), (line_nopid, obj_nopid), (line_options, obj_options),
         (line_newconfig, obj_newconfig), (line_details, obj_details),
         (line_early, obj_early), (line_india, obj_india), (line_noconfig, obj_noconfig),
         (line_bareconfig, obj_bareconfig), (line_bigpid, obj_bigpid)] line of
        Some obj \<Rightarrow> Inr obj
      | None \<Rightarrow> Inl ''invalid character looking for beginning of value'')"

definition sample_Parse :: "string \<Rightarrow> string \<Rightarrow> string + Time" where
  "sample_Parse layout v =
     (case map_of
        [(''2022-07-20T12:29:51.886-07:00'', time_1), (''2022-07-20T12:00:00.000-07:00'', time_2),
         (''2022-07-20T12:31:07.250-07:00'', time_3), (''2022-07-21T01:00:00.000+05:30'', time_4)]
        v of
        Some t \<Rightarrow> Inr t
      | None \<Rightarrow> Inl ''parsing time: cannot parse'')"

definition sample_Format :: "Time \<Rightarrow> string \<Rightarrow> string" where
  "sample_Format t layout =
     (case map_of
        [(1658345391886000000, ''Wed Jul 20 19:29:51 2022''),
         (1658343600000000000, ''Wed Jul 20 19:00:00 2022''),
         (1658345467250000000, ''Wed Jul 20 19:31:07 2022''),
         (1658345400000000000, ''Wed Jul 20 19:30:00 2022'')] (instant t) of
        Some s \<Rightarrow> s
      | None \<Rightarrow> ''Mon Jan  1 00:00:00 0001'')"

definition sample_Marshal :: "int gomap \<Rightarrow> string option \<times> string option" where
  "sample_Marshal m =
     (if m = sample_options
      then (Some (''config: /etc/mongod.conf'' @ LF @ ''net:'' @ LF @ ''    port: 27017'' @ LF), None)
      else if m = sample_rsconfig then (Some (''_id: rs0'' @ LF), None)
      else (Some (''{}'' @ LF), None))"

definition sample_Atoi :: "string \<Rightarrow> int \<times> string option" where
  "sample_Atoi s =
     (if s = ''16875'' then (16875, None)
      else if s = ''100'' then (100, None)
      else if s = ''99999999999999999999'' then (9223372036854775807, Some ''value out of range'')
      else (0, Some ''invalid syntax''))"

definition sample_ext :: "int extern" where
  "sample_ext =
     \<lparr>json_Unmarshal = sample_Unmarshal, time_Parse = sample_Parse, time_Format = sample_Format,
      yaml_Marshal = sample_Marshal, strconv_Atoi = sample_Atoi, float64_to_int = (\<lambda>f. f)\<rparr>"

text \<open>Two structs that are complete, and files of sample lines.\<close>

definition info_1 :: "int startupInfoT" where
  "info_1 =
     zero_startupInfoT\<lparr>isStartup := True, complete := True, timeStamp := time_1,
       processID := 100, port := 27017, dbPath := ''/data/db'', hostName := ''h1''\<rparr>"

definition info_1x :: "int startupInfoT_x" where
  "info_1x =
     zero_startupInfoT_x\<lparr>isStartup := True, complete := True, timeStamp := time_1,
       processID := 100, port := 27017, dbPath := ''/data/db'', hostName := ''h1'',
       memberState := ''PRIMARY'', replsetConfig := Some sample_rsconfig,
       replsetConfigYAML := Some (''_id: rs0'' @ LF)\<rparr>"

definition file_of :: "string list \<Rightarrow> logFile" where
  "file_of lines = \<lparr>open_err = None, scanned = lines, scan_err = None\<rparr>"

section \<open>The Reporter\<close>

text \<open>
  C4. For every accumulator state with \<open>complete\<close> set, \<open>printStartup\<close> leaves the state
  with \<open>complete\<close> and \<open>isStartup\<close> cleared and every other field as it was; in the
  extended variant \<open>memberState\<close>, \<open>replsetConfig\<close> and \<open>replsetConfigYAML\<close> are among
  the fields it keeps.
\<close>

theorem printStartup_complete:
  "(complete info \<longrightarrow>
      fst (printStartup ext info) = info\<lparr>complete := False, isStartup := False\<rparr>) \<and>
   (complete info_x \<longrightarrow>
      fst (printStartup_x ext info_x) = info_x\<lparr>complete := False, isStartup := False\<rparr> \<and>
      memberState (fst (printStartup_x ext info_x)) = memberState info_x \<and>
      replsetConfig (fst (printStartup_x ext info_x)) = replsetConfig info_x \<and>
      replsetConfigYAML (fst (printStartup_x ext info_x)) = replsetConfigYAML info_x)"
  by (simp add: printStartup_def printStartup_x_def Let_def)

theorem printStartup_complete_witness:
  "complete info_1 \<and>
   fst (printStartup sample_ext info_1) = info_1\<lparr>complete := False, isStartup := False\<rparr> \<and>
   complete info_1x \<and>
   fst (printStartup_x sample_ext info_1x) = info_1x\<lparr>complete := False, isStartup := False\<rparr> \<and>
   memberState (fst (printStartup_x sample_ext info_1x)) = ''PRIMARY'' \<and>
   replsetConfig (fst (printStartup_x sample_ext info_1x)) = Some sample_rsconfig \<and>
   replsetConfigYAML (fst (printStartup_x sample_ext info_1x)) = Some (''_id: rs0'' @ LF)"
proof -
  have c: "complete info_1" "complete info_1x"
    by (simp_all add: info_1_def info_1x_def)
  have r: "memberState info_1x = ''PRIMARY''" "replsetConfig info_1x = Some sample_rsconfig"
    "replsetConfigYAML info_1x = Some (''_id: rs0'' @ LF)"
    by (simp_all add: info_1x_def)
  from c r printStartup_complete [of info_1 sample_ext info_1x] show ?thesis
    by simp
qed

text \<open>
  C5. For every accumulator state with \<open>complete\<close> not set, \<open>printStartup\<close> does nothing:
  it prints nothing and returns the state as it was.
\<close>

theorem printStartup_incomplete:
  "(\<not> complete info \<longrightarrow> printStartup ext info = (info, [])) \<and>
   (\<not> complete info_x \<longrightarrow> printStartup_x ext info_x = (info_x, []))"
  by (simp add: printStartup_def printStartup_x_def)

theorem printStartup_incomplete_witness:
  "\<not> complete (zero_startupInfoT :: int startupInfoT) \<and>
   printStartup sample_ext zero_startupInfoT = (zero_startupInfoT, []) \<and>
   \<not> complete (info_1x\<lparr>complete := False\<rparr>) \<and>
   printStartup_x sample_ext (info_1x\<lparr>complete := False\<rparr>) = (info_1x\<lparr>complete := False\<rparr>, [])"
proof -
  have c: "\<not> complete (zero_startupInfoT :: int startupInfoT)"
    "\<not> complete (info_1x\<lparr>complete := False\<rparr>)"
    by (simp_all add: zero_startupInfoT_def)
  from c printStartup_incomplete [of zero_startupInfoT sample_ext "info_1x\<lparr>complete := False\<rparr>"]
  show ?thesis by simp
qed

section \<open>The Accumulator\<close>

text \<open>
  The second half of \<open>logLine\<close> sets \<open>complete\<close> for the record that ends a startup
  sequence and for no other, and never clears it.
\<close>

lemma accumulate_complete:
  assumes "accumulate ext obj t st = Done st'"
  shows "complete st' = (complete st \<or> options_record obj)"
proof (cases "Attr obj \<noteq> ANil \<and> C obj = ''CONTROL''")
  case False
  with assms show ?thesis
    by (auto simp add: accumulate_def options_record_def)
next
  case True
  with assms obtain attr where attr: "assert_map (Attr obj) = Done attr"
    by (cases "assert_map (Attr obj)") (simp_all add: accumulate_def)
  consider (a) "MSG obj = ''MongoDB starting''" | (b) "MSG obj = ''Build Info''"
    | (c) "MSG obj = ''Operating System''" | (d) "MSG obj = ''Options set by command line''"
    | (e) "\<not> recognized (MSG obj)"
    by (auto simp add: recognized_def)
  then show ?thesis
  proof cases
    case a
    with assms True attr show ?thesis
      by (auto simp add: accumulate_def options_record_def Option.bind_eq_Some_conv)
  next
    case b
    with assms True attr show ?thesis
      by (auto simp add: accumulate_def options_record_def Option.bind_eq_Some_conv)
  next
    case c
    with assms True attr show ?thesis
      by (auto simp add: accumulate_def options_record_def Option.bind_eq_Some_conv)
  next
    case d
    with assms True attr show ?thesis
      by (auto simp add: accumulate_def options_record_def Option.bind_eq_Some_conv
          case_prod_beta)
  next
    case e
    with assms True attr show ?thesis
      by (auto simp add: accumulate_def options_record_def recognized_def)
  qed
qed

lemma accumulate_x_complete:
  assumes "accumulate_x ext obj t st = Done res"
  shows "complete (fst res) = (complete st \<or> options_record_x obj)"
proof (cases "Attr obj \<noteq> ANil \<and> (C obj = ''CONTROL'' \<or> C obj = ''REPL'')")
  case False
  with assms show ?thesis
    by (auto simp add: accumulate_x_def options_record_x_def)
next
  case True
  with assms obtain attr where attr: "assert_map (Attr obj) = Done attr"
    by (cases "assert_map (Attr obj)") (simp_all add: accumulate_x_def)
  consider (a) "MSG obj = ''MongoDB starting''" | (b) "MSG obj = ''Build Info''"
    | (c) "MSG obj = ''Operating System''" | (d) "MSG obj = ''Options set by command line''"
    | (e) "MSG obj = ''Process Details''" | (f) "MSG obj = ''Node is a member of a replica set''"
    | (g) "MSG obj = ''New replica set config in use''" | (h) "\<not> recognized_x (MSG obj)"
    by (auto simp add: recognized_x_def recognized_def)
  then show ?thesis
  proof cases
    case a
    with assms True attr show ?thesis
      by (auto simp add: accumulate_x_def options_record_x_def Option.bind_eq_Some_conv)
  next
    case b
    with assms True attr show ?thesis
      by (auto simp add: accumulate_x_def options_record_x_def Option.bind_eq_Some_conv)
  next
    case c
    with assms True attr show ?thesis
      by (auto simp add: accumulate_x_def options_record_x_def Option.bind_eq_Some_conv)
  next
    case d
    with assms True attr show ?thesis
      by (auto simp add: accumulate_x_def options_record_x_def Option.bind_eq_Some_conv
          case_prod_beta)
  next
    case e
    with assms True attr show ?thesis
      by (auto simp add: accumulate_x_def options_record_x_def Option.bind_eq_Some_conv)
  next
    case f
    with assms True attr show ?thesis
      by (auto simp add: accumulate_x_def options_record_x_def Option.bind_eq_Some_conv
          case_prod_beta)
  next
    case g
    have keep: "complete (if b then st\<lparr>replsetConfigYAML := None\<rparr> else st) = complete st" for b
      by simp
    from g assms True attr show ?thesis
      by (auto simp add: accumulate_x_def options_record_x_def Option.bind_eq_Some_conv
          case_prod_beta keep)
  next
    case h
    with assms True attr show ?thesis
      by (auto simp add: accumulate_x_def options_record_x_def recognized_x_def recognized_def)
  qed
qed

lemma feed_complete:
  "feed ext rs st = Done st' \<Longrightarrow>
   complete st' = (complete st \<or> (\<exists>r\<in>set rs. options_record (fst r)))"
proof (induction rs arbitrary: st)
  case Nil
  then show ?case by simp
next
  case (Cons r rs)
  from Cons.prems obtain st1 where
    s1: "accumulate ext (fst r) (snd r) st = Done st1" and s2: "feed ext rs st1 = Done st'"
    by (cases "accumulate ext (fst r) (snd r) st") simp_all
  from accumulate_complete [OF s1] Cons.IH [OF s2] show ?case
    by auto
qed

lemma feed_x_complete:
  "feed_x ext rs st = Done st' \<Longrightarrow>
   complete st' = (complete st \<or> (\<exists>r\<in>set rs. options_record_x (fst r)))"
proof (induction rs arbitrary: st)
  case Nil
  then show ?case by simp
next
  case (Cons r rs)
  from Cons.prems obtain res where
    s1: "accumulate_x ext (fst r) (snd r) st = Done res" and s2: "feed_x ext rs (fst res) = Done st'"
    by (cases "accumulate_x ext (fst r) (snd r) st") simp_all
  from accumulate_x_complete [OF s1] Cons.IH [OF s2] show ?case
    by auto
qed

section \<open>The Decoder\<close>

text \<open>Whether the second half of \<open>logLine\<close> panics does not depend on the struct.\<close>

lemma accumulate_Panic_iff:
  "(accumulate ext obj t s1 = Panic) = (accumulate ext obj t s2 = Panic)"
  unfolding accumulate_def
  by (simp add: Option.bind_eq_None_conv split: prod.split)

lemma accumulate_x_Panic_iff:
  "(accumulate_x ext obj t s1 = Panic) = (accumulate_x ext obj t s2 = Panic)"
  unfolding accumulate_x_def
  by (simp add: Option.bind_eq_None_conv split: prod.split)

text \<open>
  C9. For every line and every two accumulator states, \<open>logLine\<close> run on the one and on
  the other either panics in both runs or returns the same pair of record and error in
  both: the pair depends on the line alone.
\<close>

theorem logLine_result_independent:
  "map_option fst (logLine ext line s1) = map_option fst (logLine ext line s2) \<and>
   map_option fst (logLine_x ext line t1) = map_option fst (logLine_x ext line t2)"
proof
  show "map_option fst (logLine ext line s1) = map_option fst (logLine ext line s2)"
  proof (cases "json_Unmarshal ext line")
    case (Inl e)
    then show ?thesis by (simp add: logLine_def)
  next
    case (Inr obj)
    note obj = this
    show ?thesis
    proof (cases "time_Parse ext timeLayout (T_Date obj)")
      case (Inl e)
      with obj show ?thesis by (simp add: logLine_def)
    next
      case (Inr t)
      with obj accumulate_Panic_iff [of ext obj t s1 s2] show ?thesis
        by (cases "accumulate ext obj t s1"; cases "accumulate ext obj t s2")
          (simp_all add: logLine_def)
    qed
  qed
next
  show "map_option fst (logLine_x ext line t1) = map_option fst (logLine_x ext line t2)"
  proof (cases "json_Unmarshal ext line")
    case (Inl e)
    then show ?thesis by (simp add: logLine_x_def)
  next
    case (Inr obj)
    note obj = this
    show ?thesis
    proof (cases "time_Parse ext timeLayout (T_Date obj)")
      case (Inl e)
      with obj show ?thesis by (simp add: logLine_x_def)
    next
      case (Inr t)
      with obj accumulate_x_Panic_iff [of ext obj t t1 t2] show ?thesis
        by (cases "accumulate_x ext obj t t1"; cases "accumulate_x ext obj t t2")
          (auto simp add: logLine_x_def)
    qed
  qed
qed

section \<open>Records and their fields\<close>

text \<open>\<open>logLine\<close> on a line that decodes: the decoded line, and the struct the second half leaves.\<close>

lemma decode_Some:
  "decode ext line = Some (obj, t) \<Longrightarrow>
   json_Unmarshal ext line = Inr obj \<and> time_Parse ext timeLayout (T_Date obj) = Inr t"
  by (auto simp add: decode_def split: sum.splits)

lemma logLine_decoded:
  "decode ext line = Some (obj, t) \<Longrightarrow>
   logLine ext line st =
     (case accumulate ext obj t st of
        Panic \<Rightarrow> Panic
      | Done st' \<Rightarrow> Done ((Some \<lparr>logT.timeStamp = t\<rparr>, None), st', []))"
  by (auto simp add: logLine_def dest!: decode_Some split: option.splits)

lemma logLine_x_decoded:
  "decode ext line = Some (obj, t) \<Longrightarrow>
   logLine_x ext line st =
     (case accumulate_x ext obj t st of
        Panic \<Rightarrow> Panic
      | Done res \<Rightarrow> Done ((Some \<lparr>logT.timeStamp = t\<rparr>, None), fst res, snd res))"
  by (auto simp add: logLine_x_def dest!: decode_Some split: option.splits)

text \<open>The type assertions succeed on the values of their type and on no other.\<close>

lemma is_float64_conv: "is_float64 v = (assert_float64 v \<noteq> Panic)"
  by (cases v) simp_all

lemma is_string_conv: "is_string v = (assert_string v \<noteq> Panic)"
  by (cases v) simp_all

lemma is_map_conv: "is_map v = (assert_map v \<noteq> Panic)"
  by (cases v) simp_all

lemma key_ok_conv: "key_ok p v k = (assert_map v \<noteq> Panic \<and> p (index (the (assert_map v)) k))"
  by (cases v) simp_all

lemmas assert_conv = is_float64_conv is_string_conv is_map_conv key_ok_conv

text \<open>
  On a recognized record with an attribute bag and an allow-listed component, the second
  half of \<open>logLine\<close> panics exactly when a required field is missing or of another type.
\<close>

lemma accumulate_Panic_required:
  assumes "Attr obj \<noteq> ANil" and "C obj = ''CONTROL''" and "recognized (MSG obj)"
  shows "(accumulate ext obj t st = Panic) = (\<not> required_ok (MSG obj) (Attr obj))"
proof -
  from assms(3) consider (a) "MSG obj = ''MongoDB starting''" | (b) "MSG obj = ''Build Info''"
    | (c) "MSG obj = ''Operating System''" | (d) "MSG obj = ''Options set by command line''"
    by (auto simp add: recognized_def)
  then show ?thesis
  proof cases
    case a
    with assms(1,2) show ?thesis
      by (auto simp add: accumulate_def required_ok_def assert_conv Option.bind_eq_None_conv)
  next
    case b
    with assms(1,2) show ?thesis
      by (auto simp add: accumulate_def required_ok_def assert_conv Option.bind_eq_None_conv)
  next
    case c
    with assms(1,2) show ?thesis
      by (auto simp add: accumulate_def required_ok_def assert_conv Option.bind_eq_None_conv)
  next
    case d
    with assms(1,2) show ?thesis
      by (auto simp add: accumulate_def required_ok_def assert_conv Option.bind_eq_None_conv
          case_prod_beta)
  qed
qed

lemma accumulate_x_Panic_required:
  assumes "Attr obj \<noteq> ANil" and "C obj = ''CONTROL'' \<or> C obj = ''REPL''"
    and "recognized_x (MSG obj)"
  shows "(accumulate_x ext obj t st = Panic) = (\<not> required_ok_x (MSG obj) (Attr obj))"
proof -
  from assms(3) consider (a) "MSG obj = ''MongoDB starting''" | (b) "MSG obj = ''Build Info''"
    | (c) "MSG obj = ''Operating System''" | (d) "MSG obj = ''Options set by command line''"
    | (e) "MSG obj = ''Process Details''" | (f) "MSG obj = ''Node is a member of a replica set''"
    | (g) "MSG obj = ''New replica set config in use''"
    by (auto simp add: recognized_x_def recognized_def)
  then show ?thesis
  proof cases
    case a
    with assms(1,2) show ?thesis
      by (auto simp add: accumulate_x_def required_ok_x_def required_ok_def assert_conv
          Option.bind_eq_None_conv)
  next
    case b
    with assms(1,2) show ?thesis
      by (auto simp add: accumulate_x_def required_ok_x_def required_ok_def assert_conv
          Option.bind_eq_None_conv)
  next
    case c
    with assms(1,2) show ?thesis
      by (auto simp add: accumulate_x_def required_ok_x_def required_ok_def assert_conv
          Option.bind_eq_None_conv)
  next
    case d
    with assms(1,2) show ?thesis
      by (auto simp add: accumulate_x_def required_ok_x_def required_ok_def assert_conv
          Option.bind_eq_None_conv case_prod_beta)
  next
    case e
    with assms(1,2) show ?thesis
      by (auto simp add: accumulate_x_def required_ok_x_def required_ok_def assert_conv
          Option.bind_eq_None_conv)
  next
    case f
    with assms(1,2) show ?thesis
      by (auto simp add: accumulate_x_def required_ok_x_def required_ok_def assert_conv
          Option.bind_eq_None_conv case_prod_beta)
  next
    case g
    with assms(1,2) show ?thesis
      by (auto simp add: accumulate_x_def required_ok_x_def required_ok_def assert_conv
          Option.bind_eq_None_conv case_prod_beta)
  qed
qed

text \<open>
  C2, as the code has it. For every sequence of decoded records fed to the accumulator from
  a state with \<open>complete\<close> not set, in a run that does not panic, \<open>complete\<close> is set at
  the end exactly when one of the records has the message text \<open>Options set by command
  line\<close>, an attribute bag and a component of the allow-list (\<open>CONTROL\<close>; in the extended
  variant \<open>CONTROL\<close> or \<open>REPL\<close>). Such a record sets \<open>complete\<close> when its bag is a map
  that holds a map under \<open>options\<close> with a string under \<open>config\<close>; otherwise it makes
  the run panic, with \<open>complete\<close> never set. No other record changes \<open>complete\<close>.
\<close>

theorem complete_iff_options:
  "(\<not> complete st \<and> feed ext rs st = Done st' \<longrightarrow>
      complete st' = (\<exists>r\<in>set rs. options_record (fst r))) \<and>
   (\<not> complete st_x \<and> feed_x ext rs st_x = Done st_x' \<longrightarrow>
      complete st_x' = (\<exists>r\<in>set rs. options_record_x (fst r))) \<and>
   (options_record obj \<and> required_ok (MSG obj) (Attr obj) \<longrightarrow>
      map_option complete (accumulate ext obj t st) = Done True) \<and>
   (options_record obj \<and> \<not> required_ok (MSG obj) (Attr obj) \<longrightarrow>
      accumulate ext obj t st = Panic) \<and>
   (\<not> options_record obj \<and> accumulate ext obj t st = Done stn \<longrightarrow>
      complete stn = complete st) \<and>
   (options_record_x obj \<and> required_ok_x (MSG obj) (Attr obj) \<longrightarrow>
      map_option (\<lambda>res. complete (fst res)) (accumulate_x ext obj t st_x) = Done True) \<and>
   (options_record_x obj \<and> \<not> required_ok_x (MSG obj) (Attr obj) \<longrightarrow>
      accumulate_x ext obj t st_x = Panic) \<and>
   (\<not> options_record_x obj \<and> accumulate_x ext obj t st_x = Done res_x \<longrightarrow>
      complete (fst res_x) = complete st_x)"
proof (intro conjI impI)
  assume "\<not> complete st \<and> feed ext rs st = Done st'"
  with feed_complete [of ext rs st st']
  show "complete st' = (\<exists>r\<in>set rs. options_record (fst r))"
    by simp
next
  assume "\<not> complete st_x \<and> feed_x ext rs st_x = Done st_x'"
  with feed_x_complete [of ext rs st_x st_x']
  show "complete st_x' = (\<exists>r\<in>set rs. options_record_x (fst r))"
    by simp
next
  assume a: "options_record obj \<and> required_ok (MSG obj) (Attr obj)"
  then have p: "Attr obj \<noteq> ANil" "C obj = ''CONTROL''" "recognized (MSG obj)"
    by (simp_all add: options_record_def recognized_def)
  from accumulate_Panic_required [OF p, of ext t st] a
  have "accumulate ext obj t st \<noteq> Panic"
    by simp
  then obtain st2 where s: "accumulate ext obj t st = Done st2"
    by blast
  from accumulate_complete [OF s] a s
  show "map_option complete (accumulate ext obj t st) = Done True"
    by simp
next
  assume a: "options_record obj \<and> \<not> required_ok (MSG obj) (Attr obj)"
  then have p: "Attr obj \<noteq> ANil" "C obj = ''CONTROL''" "recognized (MSG obj)"
    by (simp_all add: options_record_def recognized_def)
  from accumulate_Panic_required [OF p, of ext t st] a
  show "accumulate ext obj t st = Panic"
    by simp
next
  assume "\<not> options_record obj \<and> accumulate ext obj t st = Done stn"
  then show "complete stn = complete st"
    using accumulate_complete [of ext obj t st stn]
    by simp
next
  assume a: "options_record_x obj \<and> required_ok_x (MSG obj) (Attr obj)"
  then have p: "Attr obj \<noteq> ANil" "C obj = ''CONTROL'' \<or> C obj = ''REPL''"
    "recognized_x (MSG obj)"
    by (simp_all add: options_record_x_def recognized_x_def recognized_def)
  from accumulate_x_Panic_required [OF p, of ext t st_x] a
  have "accumulate_x ext obj t st_x \<noteq> Panic"
    by simp
  then obtain res where s: "accumulate_x ext obj t st_x = Done res"
    by blast
  from accumulate_x_complete [OF s] a s
  show "map_option (\<lambda>res. complete (fst res)) (accumulate_x ext obj t st_x) = Done True"
    by simp
next
  assume a: "options_record_x obj \<and> \<not> required_ok_x (MSG obj) (Attr obj)"
  then have p: "Attr obj \<noteq> ANil" "C obj = ''CONTROL'' \<or> C obj = ''REPL''"
    "recognized_x (MSG obj)"
    by (simp_all add: options_record_x_def recognized_x_def recognized_def)
  from accumulate_x_Panic_required [OF p, of ext t st_x] a
  show "accumulate_x ext obj t st_x = Panic"
    by simp
next
  assume "\<not> options_record_x obj \<and> accumulate_x ext obj t st_x = Done res_x"
  then show "complete (fst res_x) = complete st_x"
    using accumulate_x_complete [of ext obj t st_x res_x]
    by simp
qed

text \<open>
  The sample records \<open>Options set by command line\<close>, with the path of a config file and
  without one, and \<open>MongoDB starting\<close>.
\<close>

lemma options_facts:
  "options_record obj_options" "options_record_x obj_options"
  "required_ok (MSG obj_options) (Attr obj_options)"
  "required_ok_x (MSG obj_options) (Attr obj_options)"
  "options_record obj_noconfig" "options_record_x obj_noconfig"
  "\<not> required_ok (MSG obj_noconfig) (Attr obj_noconfig)"
  "\<not> required_ok_x (MSG obj_noconfig) (Attr obj_noconfig)"
  "\<not> options_record obj_starting" "\<not> options_record_x obj_starting"
  "\<not> options_record_x obj_details" "\<not> options_record_x obj_newconfig"
  by (simp_all add: options_record_def options_record_x_def required_ok_def required_ok_x_def
      obj_options_def obj_noconfig_def obj_starting_def obj_details_def obj_newconfig_def
      sample_record_def sample_options_def index_def)

lemma zero_incomplete:
  "\<not> complete (zero_startupInfoT :: int startupInfoT)"
  "\<not> complete (zero_startupInfoT_x :: int startupInfoT_x)"
  by (simp_all add: zero_startupInfoT_def zero_startupInfoT_x_def)

theorem complete_iff_options_witness:
  "\<not> complete (zero_startupInfoT :: int startupInfoT) \<and>
   feed sample_ext [(obj_starting, time_1), (obj_options, time_3)] zero_startupInfoT \<noteq> Panic \<and>
   complete (the (feed sample_ext [(obj_starting, time_1), (obj_options, time_3)]
     zero_startupInfoT)) \<and>
   \<not> complete (zero_startupInfoT_x :: int startupInfoT_x) \<and>
   feed_x sample_ext [(obj_starting, time_1), (obj_options, time_3)] zero_startupInfoT_x \<noteq> Panic \<and>
   complete (the (feed_x sample_ext [(obj_starting, time_1), (obj_options, time_3)]
     zero_startupInfoT_x)) \<and>
   feed_x sample_ext [(obj_details, time_1), (obj_newconfig, time_3)] zero_startupInfoT_x \<noteq> Panic \<and>
   \<not> complete (the (feed_x sample_ext [(obj_details, time_1), (obj_newconfig, time_3)]
     zero_startupInfoT_x)) \<and>
   options_record obj_options \<and> required_ok (MSG obj_options) (Attr obj_options) \<and>
   map_option complete (accumulate sample_ext obj_options time_3 zero_startupInfoT) = Done True \<and>
   options_record_x obj_options \<and> required_ok_x (MSG obj_options) (Attr obj_options) \<and>
   map_option (\<lambda>res. complete (fst res))
     (accumulate_x sample_ext obj_options time_3 zero_startupInfoT_x) = Done True \<and>
   options_record obj_noconfig \<and> \<not> required_ok (MSG obj_noconfig) (Attr obj_noconfig) \<and>
   accumulate sample_ext obj_noconfig time_3 zero_startupInfoT = Panic \<and>
   options_record_x obj_noconfig \<and> \<not> required_ok_x (MSG obj_noconfig) (Attr obj_noconfig) \<and>
   accumulate_x sample_ext obj_noconfig time_3 zero_startupInfoT_x = Panic \<and>
   \<not> options_record obj_starting \<and>
   accumulate sample_ext obj_starting time_1 zero_startupInfoT \<noteq> Panic \<and>
   \<not> complete (the (accumulate sample_ext obj_starting time_1 zero_startupInfoT)) \<and>
   \<not> options_record_x obj_starting \<and>
   accumulate_x sample_ext obj_starting time_1 zero_startupInfoT_x \<noteq> Panic \<and>
   \<not> complete (fst (the (accumulate_x sample_ext obj_starting time_1 zero_startupInfoT_x)))"
proof -
  let ?rs = "[(obj_starting, time_1), (obj_options, time_3)]"
  let ?rs_x = "[(obj_details, time_1), (obj_newconfig, time_3)]"
  have "accumulate sample_ext obj_starting time_1 zero_startupInfoT \<noteq> Panic"
    by (simp add: accumulate_def obj_starting_def sample_record_def index_def)
  then obtain s1 where s1: "accumulate sample_ext obj_starting time_1 zero_startupInfoT = Done s1"
    by blast
  have "accumulate_x sample_ext obj_starting time_1 zero_startupInfoT_x \<noteq> Panic"
    by (simp add: accumulate_x_def obj_starting_def sample_record_def index_def)
  then obtain r1 where
    r1: "accumulate_x sample_ext obj_starting time_1 zero_startupInfoT_x = Done r1"
    by blast
  have "feed sample_ext ?rs zero_startupInfoT \<noteq> Panic"
    by (simp add: accumulate_def obj_starting_def obj_options_def sample_record_def index_def
        getConfig_def sample_ext_def sample_options_def sample_Marshal_def)
  then obtain st' where f: "feed sample_ext ?rs zero_startupInfoT = Done st'"
    by blast
  have "feed_x sample_ext ?rs zero_startupInfoT_x \<noteq> Panic"
    by (simp add: accumulate_x_def obj_starting_def obj_options_def sample_record_def index_def
        getConfig_def sample_ext_def sample_options_def sample_Marshal_def)
  then obtain su where fx: "feed_x sample_ext ?rs zero_startupInfoT_x = Done su"
    by blast
  have "feed_x sample_ext ?rs_x zero_startupInfoT_x \<noteq> Panic"
    by (simp add: accumulate_x_def obj_details_def obj_newconfig_def sample_record_def index_def
        getConfig_def sample_ext_def sample_rsconfig_def sample_Marshal_def sample_Atoi_def)
  then obtain sv where g: "feed_x sample_ext ?rs_x zero_startupInfoT_x = Done sv"
    by blast
  note A = complete_iff_options [where ext = sample_ext and rs = ?rs
      and st = zero_startupInfoT and st' = st' and st_x = zero_startupInfoT_x and st_x' = su
      and obj = obj_options and t = time_3 and stn = s1 and res_x = r1]
  note B = complete_iff_options [where ext = sample_ext and rs = ?rs_x
      and st = zero_startupInfoT and st' = st' and st_x = zero_startupInfoT_x and st_x' = sv
      and obj = obj_noconfig and t = time_3 and stn = s1 and res_x = r1]
  note D = complete_iff_options [where ext = sample_ext and rs = ?rs
      and st = zero_startupInfoT and st' = st' and st_x = zero_startupInfoT_x and st_x' = su
      and obj = obj_starting and t = time_1 and stn = s1 and res_x = r1]
  have a1: "complete st'"
    using A [THEN conjunct1] f zero_incomplete(1) options_facts(1) by simp
  have a2: "complete su"
    using A [THEN conjunct2, THEN conjunct1] fx zero_incomplete(2) options_facts(2) by simp
  have a3: "map_option complete (accumulate sample_ext obj_options time_3 zero_startupInfoT) =
      Done True"
    using A [THEN conjunct2, THEN conjunct2, THEN conjunct1] options_facts(1,3) by simp
  have a6: "map_option (\<lambda>res. complete (fst res))
      (accumulate_x sample_ext obj_options time_3 zero_startupInfoT_x) = Done True"
    using A [THEN conjunct2, THEN conjunct2, THEN conjunct2, THEN conjunct2, THEN conjunct2,
        THEN conjunct1] options_facts(2,4) by simp
  have b2: "\<not> complete sv"
    using B [THEN conjunct2, THEN conjunct1] g zero_incomplete(2) options_facts(11,12) by simp
  have b4: "accumulate sample_ext obj_noconfig time_3 zero_startupInfoT = Panic"
    using B [THEN conjunct2, THEN conjunct2, THEN conjunct2, THEN conjunct1] options_facts(5,7)
    by simp
  have b7: "accumulate_x sample_ext obj_noconfig time_3 zero_startupInfoT_x = Panic"
    using B [THEN conjunct2, THEN conjunct2, THEN conjunct2, THEN conjunct2, THEN conjunct2,
        THEN conjunct2, THEN conjunct1] options_facts(6,8)
    by simp
  have d5: "\<not> complete s1"
    using D [THEN conjunct2, THEN conjunct2, THEN conjunct2, THEN conjunct2, THEN conjunct1]
      s1 zero_incomplete(1) options_facts(9)
    by simp
  have d8: "\<not> complete (fst r1)"
    using D [THEN conjunct2, THEN conjunct2, THEN conjunct2, THEN conjunct2, THEN conjunct2,
        THEN conjunct2, THEN conjunct2] r1 zero_incomplete(2) options_facts(10)
    by simp
  from a1 a2 a3 a6 b2 b4 b7 d5 d8 f fx g s1 r1 zero_incomplete options_facts
  show ?thesis
    by simp
qed

text \<open>
  The claim as stated fails on the record a server started without a config file logs:
  it has the message text, an attribute bag and the component \<open>CONTROL\<close>, and the run
  panics at \<open>opattropts["config"].(string)\<close> before \<open>complete\<close> is set.
\<close>

theorem complete_options_counterexample:
  "decode sample_ext line_noconfig = Some (obj_noconfig, time_3) \<and>
   MSG obj_noconfig = ''Options set by command line'' \<and> Attr obj_noconfig \<noteq> ANil \<and>
   C obj_noconfig = ''CONTROL'' \<and>
   feed sample_ext [(obj_noconfig, time_3)] zero_startupInfoT = Panic \<and>
   feed_x sample_ext [(obj_noconfig, time_3)] zero_startupInfoT_x = Panic \<and>
   List sample_ext ''mongod.log'' (file_of [line_noconfig]) = Panic \<and>
   List_x sample_ext ''mongod.log'' (file_of [line_noconfig]) = Panic"
proof -
  have d: "decode sample_ext line_noconfig = Some (obj_noconfig, time_3)"
    by (simp add: decode_def sample_ext_def sample_Unmarshal_def sample_Parse_def
        line_starting_def line_nopid_def line_options_def line_newconfig_def line_details_def
        line_early_def line_india_def line_noconfig_def obj_noconfig_def sample_record_def)
  have o: "MSG obj_noconfig = ''Options set by command line''" "Attr obj_noconfig \<noteq> ANil"
    "C obj_noconfig = ''CONTROL''"
    by (simp_all add: obj_noconfig_def sample_record_def)
  have a: "accumulate sample_ext obj_noconfig time_3 zero_startupInfoT = Panic"
    by (simp add: accumulate_def obj_noconfig_def sample_record_def index_def)
  have b: "accumulate_x sample_ext obj_noconfig time_3 zero_startupInfoT_x = Panic"
    by (simp add: accumulate_x_def obj_noconfig_def sample_record_def index_def)
  from d o a b show ?thesis
    by (simp add: List_def List_x_def file_of_def logLine_decoded [OF d] logLine_x_decoded [OF d])
qed

text \<open>
  C3, as the code has it. For every recognized record with an attribute bag and an
  allow-listed component whose bag is not a map, lacks a required key or holds, for a
  required key, a value that is not of the Go type the code asserts, \<open>logLine\<close> panics:
  a failed type assertion ends the run, and no error is returned to the caller.
\<close>

theorem missing_field_panics:
  "(decode ext line = Some (obj, t) \<and> Attr obj \<noteq> ANil \<and> C obj = ''CONTROL'' \<and>
    recognized (MSG obj) \<and> \<not> required_ok (MSG obj) (Attr obj) \<longrightarrow>
      logLine ext line st = Panic) \<and>
   (decode ext line = Some (obj, t) \<and> Attr obj \<noteq> ANil \<and>
    (C obj = ''CONTROL'' \<or> C obj = ''REPL'') \<and>
    recognized_x (MSG obj) \<and> \<not> required_ok_x (MSG obj) (Attr obj) \<longrightarrow>
      logLine_x ext line st_x = Panic)"
  using accumulate_Panic_required [of obj ext t st]
    accumulate_x_Panic_required [of obj ext t st_x]
  by (auto simp add: logLine_decoded logLine_x_decoded)

text \<open>The sample record \<open>MongoDB starting\<close> without a \<open>pid\<close>.\<close>

lemma nopid_facts:
  "decode sample_ext line_nopid = Some (obj_nopid, time_1)"
  "Attr obj_nopid \<noteq> ANil" "C obj_nopid = ''CONTROL''"
  "recognized (MSG obj_nopid)" "recognized_x (MSG obj_nopid)"
  "\<not> required_ok (MSG obj_nopid) (Attr obj_nopid)"
  "\<not> required_ok_x (MSG obj_nopid) (Attr obj_nopid)"
  by (simp_all add: decode_def sample_ext_def sample_Unmarshal_def sample_Parse_def
      line_nopid_def line_starting_def obj_nopid_def sample_record_def recognized_def
      recognized_x_def required_ok_def required_ok_x_def index_def)

theorem missing_field_panics_witness:
  "decode sample_ext line_nopid = Some (obj_nopid, time_1) \<and>
   Attr obj_nopid \<noteq> ANil \<and> C obj_nopid = ''CONTROL'' \<and>
   recognized (MSG obj_nopid) \<and> \<not> required_ok (MSG obj_nopid) (Attr obj_nopid) \<and>
   logLine sample_ext line_nopid info_1 = Panic \<and>
   recognized_x (MSG obj_nopid) \<and> \<not> required_ok_x (MSG obj_nopid) (Attr obj_nopid) \<and>
   logLine_x sample_ext line_nopid info_1x = Panic"
  using nopid_facts missing_field_panics [of sample_ext line_nopid obj_nopid time_1 info_1 info_1x]
  by simp

text \<open>
  The claim as stated fails on that record: \<open>logLine\<close> returns no error but panics, and so
  does the pass over a file that holds the line.
\<close>

theorem missing_field_counterexample:
  "logLine sample_ext line_nopid zero_startupInfoT = Panic \<and>
   logLine_x sample_ext line_nopid zero_startupInfoT_x = Panic \<and>
   List sample_ext ''mongod.log'' (file_of [line_nopid]) = Panic \<and>
   List_x sample_ext ''mongod.log'' (file_of [line_nopid]) = Panic"
proof -
  have a: "accumulate sample_ext obj_nopid time_1 zero_startupInfoT = Panic"
    by (simp add: accumulate_def obj_nopid_def sample_record_def index_def)
  have b: "accumulate_x sample_ext obj_nopid time_1 zero_startupInfoT_x = Panic"
    by (simp add: accumulate_x_def obj_nopid_def sample_record_def index_def)
  from a b show ?thesis
    by (simp add: List_def List_x_def file_of_def logLine_decoded [OF nopid_facts(1)]
        logLine_x_decoded [OF nopid_facts(1)])
qed











section \<open>The pass\<close>

text \<open>
  The record \<open>logLine\<close> returns is the decoded line, if the line decodes, and \<open>nil\<close>
  otherwise; with a record it returns no error.
\<close>

lemma logLine_record:
  assumes "logLine ext line st = Done ((r, e), st', out)"
  shows "r = map_option (\<lambda>p. \<lparr>logT.timeStamp = snd p\<rparr>) (decode ext line) \<and>
         (r \<noteq> None \<longrightarrow> e = None)"
proof (cases "decode ext line")
  case None
  with assms show ?thesis
    by (auto simp add: logLine_def decode_def split: sum.splits if_splits)
next
  case (Some p)
  then have "decode ext line = Some (fst p, snd p)"
    by simp
  from logLine_decoded [OF this] assms Some show ?thesis
    by (auto split: option.splits)
qed

lemma logLine_x_record:
  assumes "logLine_x ext line st = Done ((r, e), st', out)"
  shows "r = map_option (\<lambda>p. \<lparr>logT.timeStamp = snd p\<rparr>) (decode ext line) \<and>
         (r \<noteq> None \<longrightarrow> e = None)"
proof (cases "decode ext line")
  case None
  with assms show ?thesis
    by (auto simp add: logLine_x_def decode_def split: sum.splits if_splits)
next
  case (Some p)
  then have "decode ext line = Some (fst p, snd p)"
    by simp
  from logLine_x_decoded [OF this] assms Some show ?thesis
    by (auto split: option.splits)
qed

lemma timestamps_Cons:
  "timestamps ext (line # rest) =
     (case decode ext line of
        None \<Rightarrow> timestamps ext rest
      | Some p \<Rightarrow> snd p # timestamps ext rest)"
  by (simp add: timestamps_def split: option.splits)

lemma instant_pick:
  "instant (if Before t e then t else e) = min (instant t) (instant e)"
  "instant (if After t l then t else l) = max (instant t) (instant l)"
  by (auto simp add: Before_def After_def)

text \<open>
  The loop once a first record has been seen: the bounds are folded over the timestamps
  of the lines left.
\<close>

lemma List_loop_later:
  "List_loop ext fileName lines e l False st n out = Done (None, e', l', n', out') \<Longrightarrow>
   instant e' = fold min (map instant (timestamps ext lines)) (instant e) \<and>
   instant l' = fold max (map instant (timestamps ext lines)) (instant l)"
proof (induction lines arbitrary: e l st n out)
  case Nil
  then show ?case by (simp add: timestamps_def)
next
  case (Cons line rest)
  from Cons.prems obtain r er st1 o1 where
    ll: "logLine ext line st = Done ((r, er), st1, o1)"
    by (cases "logLine ext line st") auto
  note rec = logLine_record [OF ll]
  show ?case
  proof (cases "decode ext line")
    case None
    with rec have "r = None" by simp
    with Cons.prems ll have "List_loop ext fileName rest e l False st1 (n + 1) (out @ o1) =
        Done (None, e', l', n', out')"
      by simp
    from Cons.IH [OF this] None show ?thesis
      by (simp add: timestamps_Cons)
  next
    case (Some p)
    with rec have r: "r = Some \<lparr>logT.timeStamp = snd p\<rparr>" and er: "er = None"
      by simp_all
    from Cons.prems ll r er obtain st2 o2 where
      "List_loop ext fileName rest (if Before (snd p) e then snd p else e)
         (if After (snd p) l then snd p else l) False st2 (n + 1) (out @ o1 @ o2) =
       Done (None, e', l', n', out')"
      by (simp add: Let_def case_prod_beta cong: if_cong)
    from Cons.IH [OF this] Some show ?thesis
      by (simp add: timestamps_Cons instant_pick)
  qed
qed

text \<open>The loop from its start: the first record sets both bounds.\<close>

lemma List_loop_first:
  "List_loop ext fileName lines e l True st n out = Done (None, e', l', n', out') \<Longrightarrow>
   (case timestamps ext lines of
      [] \<Rightarrow> e' = e \<and> l' = l
    | t # ts \<Rightarrow>
        instant e' = fold min (map instant ts) (instant t) \<and>
        instant l' = fold max (map instant ts) (instant t))"
proof (induction lines arbitrary: st n out)
  case Nil
  then show ?case by (simp add: timestamps_def)
next
  case (Cons line rest)
  from Cons.prems obtain r er st1 o1 where
    ll: "logLine ext line st = Done ((r, er), st1, o1)"
    by (cases "logLine ext line st") auto
  note rec = logLine_record [OF ll]
  show ?case
  proof (cases "decode ext line")
    case None
    with rec have "r = None" by simp
    with Cons.prems ll have "List_loop ext fileName rest e l True st1 (n + 1) (out @ o1) =
        Done (None, e', l', n', out')"
      by simp
    from Cons.IH [OF this] None show ?thesis
      by (simp add: timestamps_Cons)
  next
    case (Some p)
    with rec have r: "r = Some \<lparr>logT.timeStamp = snd p\<rparr>" and er: "er = None"
      by simp_all
    from Cons.prems ll r er obtain st2 o2 where
      "List_loop ext fileName rest (snd p) (snd p) False st2 (n + 1) (out @ o1 @ o2) =
       Done (None, e', l', n', out')"
      by (simp add: Let_def case_prod_beta cong: if_cong)
    from List_loop_later [OF this] Some show ?thesis
      by (simp add: timestamps_Cons)
  qed
qed

text \<open>The same two facts for the loop of the extended variant.\<close>

lemma List_loop_x_later:
  "List_loop_x ext fileName lines e l False st n out = Done (None, e', l', n', out') \<Longrightarrow>
   instant e' = fold min (map instant (timestamps ext lines)) (instant e) \<and>
   instant l' = fold max (map instant (timestamps ext lines)) (instant l)"
proof (induction lines arbitrary: e l st n out)
  case Nil
  then show ?case by (simp add: timestamps_def)
next
  case (Cons line rest)
  from Cons.prems obtain r er st1 o1 where
    ll: "logLine_x ext line st = Done ((r, er), st1, o1)"
    by (cases "logLine_x ext line st") auto
  note rec = logLine_x_record [OF ll]
  show ?case
  proof (cases "decode ext line")
    case None
    with rec have "r = None" by simp
    with Cons.prems ll have "List_loop_x ext fileName rest e l False st1 (n + 1) (out @ o1) =
        Done (None, e', l', n', out')"
      by simp
    from Cons.IH [OF this] None show ?thesis
      by (simp add: timestamps_Cons)
  next
    case (Some p)
    with rec have r: "r = Some \<lparr>logT.timeStamp = snd p\<rparr>" and er: "er = None"
      by simp_all
    from Cons.prems ll r er obtain st2 o2 where
      "List_loop_x ext fileName rest (if Before (snd p) e then snd p else e)
         (if After (snd p) l then snd p else l) False st2 (n + 1) (out @ o1 @ o2) =
       Done (None, e', l', n', out')"
      by (simp add: Let_def case_prod_beta cong: if_cong)
    from Cons.IH [OF this] Some show ?thesis
      by (simp add: timestamps_Cons instant_pick)
  qed
qed

lemma List_loop_x_first:
  "List_loop_x ext fileName lines e l True st n out = Done (None, e', l', n', out') \<Longrightarrow>
   (case timestamps ext lines of
      [] \<Rightarrow> e' = e \<and> l' = l
    | t # ts \<Rightarrow>
        instant e' = fold min (map instant ts) (instant t) \<and>
        instant l' = fold max (map instant ts) (instant t))"
proof (induction lines arbitrary: st n out)
  case Nil
  then show ?case by (simp add: timestamps_def)
next
  case (Cons line rest)
  from Cons.prems obtain r er st1 o1 where
    ll: "logLine_x ext line st = Done ((r, er), st1, o1)"
    by (cases "logLine_x ext line st") auto
  note rec = logLine_x_record [OF ll]
  show ?case
  proof (cases "decode ext line")
    case None
    with rec have "r = None" by simp
    with Cons.prems ll have "List_loop_x ext fileName rest e l True st1 (n + 1) (out @ o1) =
        Done (None, e', l', n', out')"
      by simp
    from Cons.IH [OF this] None show ?thesis
      by (simp add: timestamps_Cons)
  next
    case (Some p)
    with rec have r: "r = Some \<lparr>logT.timeStamp = snd p\<rparr>" and er: "er = None"
      by simp_all
    from Cons.prems ll r er obtain st2 o2 where
      "List_loop_x ext fileName rest (snd p) (snd p) False st2 (n + 1) (out @ o1 @ o2) =
       Done (None, e', l', n', out')"
      by (simp add: Let_def case_prod_beta cong: if_cong)
    from List_loop_x_later [OF this] Some show ?thesis
      by (simp add: timestamps_Cons)
  qed
qed

text \<open>The last line of the summary, for bounds with the least and the greatest instant.\<close>

lemma UTC_instant: "UTC t = \<lparr>instant = instant t, zoneOffset = 0\<rparr>"
  by (cases t) (simp add: UTC_def)

lemma last_summary:
  assumes "instant e = Min (set (map instant ts))" and "instant l = Max (set (map instant ts))"
  shows "last (out @ summary ext fileName e l n) = range_line ext ts"
  using assms by (simp add: summary_def range_line_def Let_def UTC_instant Sub_def)

lemma List_range:
  assumes "List ext fileName file = Done (None, out)" and "timestamps ext (scanned file) \<noteq> []"
  shows "last out = range_line ext (timestamps ext (scanned file))"
proof -
  from assms(1) obtain e l n out0 where
    loop: "List_loop ext fileName (scanned file) zero_Time zero_Time True zero_startupInfoT 0 [] =
      Done (None, e, l, n, out0)" and
    out: "out = out0 @ summary ext fileName e l n"
    by (auto simp add: List_def Option.bind_eq_Some_conv split: option.splits)
  from assms(2) obtain t ts where ts: "timestamps ext (scanned file) = t # ts"
    by (cases "timestamps ext (scanned file)") auto
  with List_loop_first [OF loop] have
    "instant e = Min (set (map instant (t # ts)))" "instant l = Max (set (map instant (t # ts)))"
    using Min.set_eq_fold [of "instant t" "map instant ts"]
      Max.set_eq_fold [of "instant t" "map instant ts"]
    by simp_all
  with ts out show ?thesis
    by (simp add: last_summary)
qed

lemma List_x_range:
  assumes "List_x ext fileName file = Done (None, out)" and "timestamps ext (scanned file) \<noteq> []"
  shows "last out = range_line ext (timestamps ext (scanned file))"
proof -
  from assms(1) obtain e l n out0 where
    loop: "List_loop_x ext fileName (scanned file) zero_Time zero_Time True zero_startupInfoT_x 0 [] =
      Done (None, e, l, n, out0)" and
    out: "out = out0 @ summary ext fileName e l n"
    by (auto simp add: List_x_def Option.bind_eq_Some_conv split: option.splits)
  from assms(2) obtain t ts where ts: "timestamps ext (scanned file) = t # ts"
    by (cases "timestamps ext (scanned file)") auto
  with List_loop_x_first [OF loop] have
    "instant e = Min (set (map instant (t # ts)))" "instant l = Max (set (map instant (t # ts)))"
    using Min.set_eq_fold [of "instant t" "map instant ts"]
      Max.set_eq_fold [of "instant t" "map instant ts"]
    by simp_all
  with ts out show ?thesis
    by (simp add: last_summary)
qed

text \<open>The range does not depend on the order of the lines.\<close>

lemma timestamps_Nil: "timestamps ext [] = []"
  by (simp add: timestamps_def)

lemma set_timestamps:
  "set (timestamps ext lines) = {t. \<exists>line\<in>set lines. map_option snd (decode ext line) = Some t}"
  by (induction lines) (auto simp add: timestamps_Cons timestamps_Nil split: option.splits)

lemma range_line_mset:
  assumes "mset lines' = mset lines"
  shows "range_line ext (timestamps ext lines') = range_line ext (timestamps ext lines)"
proof -
  from assms have "set lines' = set lines"
    by (rule mset_eq_setD)
  then have "set (timestamps ext lines') = set (timestamps ext lines)"
    by (simp add: set_timestamps)
  then show ?thesis
    by (simp add: range_line_def)
qed

lemma range_line_single:
  "range_line ext [t] =
     Printf (''UTC time range in log file: %s -to- %s (%s)'' @ LF)
       [FStr (time_Format ext (UTC t) ANSIC), FStr (time_Format ext (UTC t) ANSIC), FDuration 0]"
  by (simp add: range_line_def UTC_instant Sub_def Let_def maxDuration_def minDuration_def)

text \<open>The sample lines in the sample environment.\<close>

lemma sample_decode:
  "decode sample_ext line_starting = Some (obj_starting, time_1)"
  "decode sample_ext line_early = Some (obj_early, time_2)"
  "decode sample_ext line_options = Some (obj_options, time_3)"
  "decode sample_ext line_india = Some (obj_india, time_4)"
  "decode sample_ext line_garbage = None"
  by (simp_all add: decode_def sample_ext_def sample_Unmarshal_def sample_Parse_def
      line_starting_def line_nopid_def line_options_def line_newconfig_def line_details_def
      line_early_def line_india_def line_noconfig_def line_bareconfig_def line_bigpid_def
      line_garbage_def obj_starting_def obj_early_def obj_options_def obj_india_def
      sample_record_def)

lemma sample_garbage:
  "logLine sample_ext line_garbage st =
     Done ((None, Some (Errorf ''error parsing log line for JSON: %v''
       [FErr (LibErr ''invalid character looking for beginning of value'')])), st, [])"
  "logLine_x sample_ext line_garbage st_x =
     Done ((None, Some (Errorf ''error parsing log line for JSON: %v''
       [FErr (LibErr ''invalid character looking for beginning of value'')])), st_x, [])"
  by (simp_all add: logLine_def logLine_x_def sample_ext_def sample_Unmarshal_def
      line_starting_def line_nopid_def line_options_def line_newconfig_def line_details_def
      line_early_def line_india_def line_noconfig_def line_bareconfig_def line_bigpid_def
      line_garbage_def skippingLines_def)

lemma sample_accumulate:
  "accumulate sample_ext obj_early time_2 st = Done st"
  "accumulate sample_ext obj_india time_4 st = Done st"
  "accumulate_x sample_ext obj_early time_2 st_x = Done (st_x, [])"
  "accumulate_x sample_ext obj_india time_4 st_x = Done (st_x, [])"
  by (simp_all add: accumulate_def accumulate_x_def obj_early_def obj_india_def
      sample_record_def)

lemmas sample_logLine =
  logLine_decoded [OF sample_decode(2)] logLine_decoded [OF sample_decode(4)]
  logLine_x_decoded [OF sample_decode(2)] logLine_x_decoded [OF sample_decode(4)]
  sample_garbage sample_accumulate

text \<open>
  C6. For every file whose pass succeeds and has at least one decodable record, the last
  line of the summary reports the range from the least to the greatest instant of the
  timestamps of the decodable records, with the distance between the two. The range
  is the same for every order of the lines, and for a single timestamp both ends are
  that timestamp and the duration is zero.
\<close>

theorem reported_range:
  "(List ext fileName file = Done (None, out) \<and> timestamps ext (scanned file) \<noteq> [] \<longrightarrow>
      last out = range_line ext (timestamps ext (scanned file))) \<and>
   (List_x ext fileName file = Done (None, out_x) \<and> timestamps ext (scanned file) \<noteq> [] \<longrightarrow>
      last out_x = range_line ext (timestamps ext (scanned file))) \<and>
   (mset lines' = mset (scanned file) \<longrightarrow>
      range_line ext (timestamps ext lines') = range_line ext (timestamps ext (scanned file))) \<and>
   range_line ext [t] =
     Printf (''UTC time range in log file: %s -to- %s (%s)'' @ LF)
       [FStr (time_Format ext (UTC t) ANSIC), FStr (time_Format ext (UTC t) ANSIC), FDuration 0]"
proof (intro conjI impI)
  assume "List ext fileName file = Done (None, out) \<and> timestamps ext (scanned file) \<noteq> []"
  then have "List ext fileName file = Done (None, out)" "timestamps ext (scanned file) \<noteq> []"
    by simp_all
  then show "last out = range_line ext (timestamps ext (scanned file))"
    by (rule List_range)
next
  assume "List_x ext fileName file = Done (None, out_x) \<and> timestamps ext (scanned file) \<noteq> []"
  then have "List_x ext fileName file = Done (None, out_x)" "timestamps ext (scanned file) \<noteq> []"
    by simp_all
  then show "last out_x = range_line ext (timestamps ext (scanned file))"
    by (rule List_x_range)
next
  assume "mset lines' = mset (scanned file)"
  then show "range_line ext (timestamps ext lines') = range_line ext (timestamps ext (scanned file))"
    by (rule range_line_mset)
next
  show "range_line ext [t] =
     Printf (''UTC time range in log file: %s -to- %s (%s)'' @ LF)
       [FStr (time_Format ext (UTC t) ANSIC), FStr (time_Format ext (UTC t) ANSIC), FDuration 0]"
    by (rule range_line_single)
qed

text \<open>The theorem of C6 on a file of three sample lines, the earliest in the middle.\<close>

theorem reported_range_witness:
  "List sample_ext ''mongod.log'' (file_of [line_starting, line_early, line_options]) \<noteq> Panic \<and>
   fst (the (List sample_ext ''mongod.log'' (file_of [line_starting, line_early, line_options]))) =
     None \<and>
   List_x sample_ext ''mongod.log'' (file_of [line_starting, line_early, line_options]) \<noteq> Panic \<and>
   fst (the (List_x sample_ext ''mongod.log'' (file_of [line_starting, line_early, line_options]))) =
     None \<and>
   timestamps sample_ext [line_starting, line_early, line_options] = [time_1, time_2, time_3] \<and>
   last (snd (the (List sample_ext ''mongod.log''
       (file_of [line_starting, line_early, line_options])))) =
     Printf (''UTC time range in log file: %s -to- %s (%s)'' @ LF)
       [FStr ''Wed Jul 20 19:00:00 2022'', FStr ''Wed Jul 20 19:31:07 2022'',
        FDuration 1867250000000] \<and>
   last (snd (the (List_x sample_ext ''mongod.log''
       (file_of [line_starting, line_early, line_options])))) =
     Printf (''UTC time range in log file: %s -to- %s (%s)'' @ LF)
       [FStr ''Wed Jul 20 19:00:00 2022'', FStr ''Wed Jul 20 19:31:07 2022'',
        FDuration 1867250000000]"
proof -
  let ?lines = "[line_starting, line_early, line_options]"
  let ?file = "file_of ?lines"
  have ts: "timestamps sample_ext ?lines = [time_1, time_2, time_3]"
    by (simp add: timestamps_Cons timestamps_Nil sample_decode)
  have sc: "scanned ?file = ?lines"
    by (simp add: file_of_def)
  have rl: "range_line sample_ext [time_1, time_2, time_3] =
      Printf (''UTC time range in log file: %s -to- %s (%s)'' @ LF)
        [FStr ''Wed Jul 20 19:00:00 2022'', FStr ''Wed Jul 20 19:31:07 2022'',
         FDuration 1867250000000]"
    by (simp add: range_line_def Let_def time_1_def time_2_def time_3_def sample_ext_def
        sample_Format_def Sub_def maxDuration_def minDuration_def)
  have ok: "Attr obj_starting \<noteq> ANil" "C obj_starting = ''CONTROL''"
    "recognized (MSG obj_starting)" "recognized_x (MSG obj_starting)"
    "required_ok (MSG obj_starting) (Attr obj_starting)"
    "required_ok_x (MSG obj_starting) (Attr obj_starting)"
    "Attr obj_options \<noteq> ANil" "C obj_options = ''CONTROL''"
    "recognized (MSG obj_options)" "recognized_x (MSG obj_options)"
    "required_ok (MSG obj_options) (Attr obj_options)"
    "required_ok_x (MSG obj_options) (Attr obj_options)"
    "\<not> options_record obj_starting" "options_record obj_options"
    "\<not> options_record_x obj_starting" "options_record_x obj_options"
    by (simp_all add: obj_starting_def obj_options_def sample_record_def recognized_def
        recognized_x_def required_ok_def required_ok_x_def index_def sample_options_def
        options_record_def options_record_x_def)
  have z: "\<not> complete (zero_startupInfoT :: int startupInfoT)"
    "\<not> complete (zero_startupInfoT_x :: int startupInfoT_x)"
    by (simp_all add: zero_startupInfoT_def zero_startupInfoT_x_def)

  from ok accumulate_Panic_required [of obj_starting sample_ext time_1 zero_startupInfoT]
  obtain s1 where e1: "accumulate sample_ext obj_starting time_1 zero_startupInfoT = Done s1"
    by auto
  from accumulate_complete [OF e1] ok z have c1: "\<not> complete s1"
    by simp
  from ok accumulate_Panic_required [of obj_options sample_ext time_3 s1]
  obtain s3 where e3: "accumulate sample_ext obj_options time_3 s1 = Done s3"
    by auto
  from accumulate_complete [OF e3] ok have c3: "complete s3"
    by simp
  have "\<exists>out. List sample_ext ''mongod.log'' ?file = Done (None, out)"
    by (simp add: List_def file_of_def sample_logLine logLine_decoded [OF sample_decode(1)]
        logLine_decoded [OF sample_decode(3)] e1 c1 e3 c3 Let_def case_prod_beta)
  then obtain out where l: "List sample_ext ''mongod.log'' ?file = Done (None, out)"
    by blast

  from ok accumulate_x_Panic_required [of obj_starting sample_ext time_1 zero_startupInfoT_x]
  obtain r1 where f1: "accumulate_x sample_ext obj_starting time_1 zero_startupInfoT_x = Done r1"
    by auto
  from accumulate_x_complete [OF f1] ok z have d1: "\<not> complete (fst r1)"
    by simp
  from ok accumulate_x_Panic_required [of obj_options sample_ext time_3 "fst r1"]
  obtain r3 where f3: "accumulate_x sample_ext obj_options time_3 (fst r1) = Done r3"
    by auto
  from accumulate_x_complete [OF f3] ok have d3: "complete (fst r3)"
    by simp
  have "\<exists>out. List_x sample_ext ''mongod.log'' ?file = Done (None, out)"
    by (simp add: List_x_def file_of_def sample_logLine logLine_x_decoded [OF sample_decode(1)]
        logLine_x_decoded [OF sample_decode(3)] f1 d1 f3 d3 Let_def case_prod_beta)
  then obtain out_x where lx: "List_x sample_ext ''mongod.log'' ?file = Done (None, out_x)"
    by blast
  from reported_range [of sample_ext "''mongod.log''" ?file out out_x] l lx ts sc rl
  show ?thesis
    by simp
qed

text \<open>
  The loop of \<open>List\<close> never returns an error: \<open>logLine\<close> returns an error only with a
  \<open>nil\<close> record, and the loop continues on a \<open>nil\<close> record before it looks at the
  error. So \<open>List\<close> returns an error only when the file does not open or the scanner
  reports one.
\<close>

lemma List_loop_no_error:
  "List_loop ext fileName lines e l first st n out = Done (ret, res) \<Longrightarrow> ret = None"
proof (induction lines arbitrary: e l first st n out)
  case Nil
  then show ?case by simp
next
  case (Cons line rest)
  from Cons.prems obtain r er st1 o1 where
    ll: "logLine ext line st = Done ((r, er), st1, o1)"
    by (cases "logLine ext line st") auto
  note rec = logLine_record [OF ll]
  show ?case
  proof (cases r)
    case None
    with Cons.prems ll have
      "List_loop ext fileName rest e l first st1 (n + 1) (out @ o1) = Done (ret, res)"
      by simp
    then show ?thesis by (rule Cons.IH)
  next
    case (Some logMsg)
    with rec have "er = None" by simp
    with Cons.prems ll Some obtain e1 l1 st2 out2 where
      "List_loop ext fileName rest e1 l1 False st2 (n + 1) out2 = Done (ret, res)"
      by (simp add: Let_def case_prod_beta)
    then show ?thesis by (rule Cons.IH)
  qed
qed

lemma List_loop_x_no_error:
  "List_loop_x ext fileName lines e l first st n out = Done (ret, res) \<Longrightarrow> ret = None"
proof (induction lines arbitrary: e l first st n out)
  case Nil
  then show ?case by simp
next
  case (Cons line rest)
  from Cons.prems obtain r er st1 o1 where
    ll: "logLine_x ext line st = Done ((r, er), st1, o1)"
    by (cases "logLine_x ext line st") auto
  note rec = logLine_x_record [OF ll]
  show ?case
  proof (cases r)
    case None
    with Cons.prems ll have
      "List_loop_x ext fileName rest e l first st1 (n + 1) (out @ o1) = Done (ret, res)"
      by simp
    then show ?thesis by (rule Cons.IH)
  next
    case (Some logMsg)
    with rec have "er = None" by simp
    with Cons.prems ll Some obtain e1 l1 st2 out2 where
      "List_loop_x ext fileName rest e1 l1 False st2 (n + 1) out2 = Done (ret, res)"
      by (simp add: Let_def case_prod_beta)
    then show ?thesis by (rule Cons.IH)
  qed
qed

lemma List_error_only_io:
  "List ext fileName file = Done (Some err, out) \<Longrightarrow> open_err file \<noteq> None \<or> scan_err file \<noteq> None"
  "List_x ext fileName file = Done (Some err, out) \<Longrightarrow> open_err file \<noteq> None \<or> scan_err file \<noteq> None"
  by (auto simp add: List_def List_x_def Option.bind_eq_Some_conv
      dest: List_loop_no_error List_loop_x_no_error split: option.splits)

text \<open>
  C1. A line that is neither a structured record nor a banner line is to make \<open>List\<close>
  fail with an error that holds the raw line, with no later line processed. The code
  does not do so. On a file whose first line is no JSON and does not start with the
  banner prefix, followed by a log line, \<open>logLine\<close> returns a \<open>nil\<close> record with its
  error for the first line, \<open>List\<close> tests the record before the error and goes on to
  the next line, and the pass ends with no error and the summary over both lines.
\<close>

theorem malformed_line_skipped:
  "\<not> prefix skippingLines line_garbage \<and>
   decode sample_ext line_garbage = None \<and>
   List sample_ext ''mongod.log'' (file_of [line_garbage, line_early]) =
     Done (None,
       [Printf (''%d lines in log file %s'' @ LF) [FInt 2, FStr ''mongod.log''],
        Printf (''Log file timezone is UTC %d hours %d minutes)'' @ LF) [FInt (- 7), FInt 0],
        Printf (''UTC time range in log file: %s -to- %s (%s)'' @ LF)
          [FStr ''Wed Jul 20 19:00:00 2022'', FStr ''Wed Jul 20 19:00:00 2022'', FDuration 0]]) \<and>
   List_x sample_ext ''mongod.log'' (file_of [line_garbage, line_early]) =
     Done (None,
       [Printf (''%d lines in log file %s'' @ LF) [FInt 2, FStr ''mongod.log''],
        Printf (''Log file timezone is UTC %d hours %d minutes)'' @ LF) [FInt (- 7), FInt 0],
        Printf (''UTC time range in log file: %s -to- %s (%s)'' @ LF)
          [FStr ''Wed Jul 20 19:00:00 2022'', FStr ''Wed Jul 20 19:00:00 2022'', FDuration 0]])"
proof -
  have p: "\<not> prefix skippingLines line_garbage"
    by (simp add: skippingLines_def line_garbage_def)
  have s: "summary sample_ext ''mongod.log'' time_2 time_2 2 =
      [Printf (''%d lines in log file %s'' @ LF) [FInt 2, FStr ''mongod.log''],
       Printf (''Log file timezone is UTC %d hours %d minutes)'' @ LF) [FInt (- 7), FInt 0],
       Printf (''UTC time range in log file: %s -to- %s (%s)'' @ LF)
         [FStr ''Wed Jul 20 19:00:00 2022'', FStr ''Wed Jul 20 19:00:00 2022'', FDuration 0]]"
    by (simp add: summary_def Let_def Zone_def UTC_def Sub_def time_2_def sample_ext_def
        sample_Format_def signed_divide_int_def signed_modulo_int_def maxDuration_def
        minDuration_def)
  have c: "\<not> complete (zero_startupInfoT :: int startupInfoT)"
    "\<not> complete (zero_startupInfoT_x :: int startupInfoT_x)"
    by (simp_all add: zero_startupInfoT_def zero_startupInfoT_x_def)
  from p s c show ?thesis
    by (simp add: List_def List_x_def file_of_def sample_logLine sample_decode)
qed

text \<open>
  C7. The summary is to report a zone offset of \<open>tzo\<close> seconds as \<open>tzo/3600\<close> hours and
  \<open>(tzo/60) mod 60\<close> minutes. The code does not do so. On a file whose one record has
  the zone offset \<open>+05:30\<close>, that is 19800 seconds, \<open>List\<close> prints \<open>tzo/3600\<close> and
  \<open>tzo%60\<close>, the hours and the seconds left over of a minute: it reports 5 hours 0
  minutes where the offset is 5 hours 30 minutes.
\<close>

theorem zone_minutes_lost:
  "Zone time_4 = 19800 \<and>
   (19800 :: int) sdiv 3600 = 5 \<and> ((19800 :: int) sdiv 60) smod 60 = 30 \<and>
   List sample_ext ''mongod.log'' (file_of [line_india]) =
     Done (None,
       [Printf (''%d lines in log file %s'' @ LF) [FInt 1, FStr ''mongod.log''],
        Printf (''Log file timezone is UTC %d hours %d minutes)'' @ LF) [FInt 5, FInt 0],
        Printf (''UTC time range in log file: %s -to- %s (%s)'' @ LF)
          [FStr ''Wed Jul 20 19:30:00 2022'', FStr ''Wed Jul 20 19:30:00 2022'', FDuration 0]]) \<and>
   List_x sample_ext ''mongod.log'' (file_of [line_india]) =
     Done (None,
       [Printf (''%d lines in log file %s'' @ LF) [FInt 1, FStr ''mongod.log''],
        Printf (''Log file timezone is UTC %d hours %d minutes)'' @ LF) [FInt 5, FInt 0],
        Printf (''UTC time range in log file: %s -to- %s (%s)'' @ LF)
          [FStr ''Wed Jul 20 19:30:00 2022'', FStr ''Wed Jul 20 19:30:00 2022'', FDuration 0]])"
proof -
  have z: "Zone time_4 = 19800" "(19800 :: int) sdiv 3600 = 5"
    "((19800 :: int) sdiv 60) smod 60 = 30"
    by (simp_all add: Zone_def time_4_def signed_divide_int_def signed_modulo_int_def)
  have s: "summary sample_ext ''mongod.log'' time_4 time_4 1 =
      [Printf (''%d lines in log file %s'' @ LF) [FInt 1, FStr ''mongod.log''],
       Printf (''Log file timezone is UTC %d hours %d minutes)'' @ LF) [FInt 5, FInt 0],
       Printf (''UTC time range in log file: %s -to- %s (%s)'' @ LF)
         [FStr ''Wed Jul 20 19:30:00 2022'', FStr ''Wed Jul 20 19:30:00 2022'', FDuration 0]]"
    by (simp add: summary_def Let_def Zone_def UTC_def Sub_def time_4_def sample_ext_def
        sample_Format_def signed_divide_int_def signed_modulo_int_def maxDuration_def
        minDuration_def)
  have c: "\<not> complete (zero_startupInfoT :: int startupInfoT)"
    "\<not> complete (zero_startupInfoT_x :: int startupInfoT_x)"
    by (simp_all add: zero_startupInfoT_def zero_startupInfoT_x_def)
  from z s c show ?thesis
    by (simp add: List_def List_x_def file_of_def sample_logLine)
qed

end
